theory Spec2Isabelle
  imports Main
begin

section \<open>Values shared by the tools\<close>

text \<open>
  The tools build Python dictionaries and hand them to \<^verbatim>\<open>json.dumps\<close>. A value that
  \<^verbatim>\<open>json.dumps\<close> accepts is a \<open>json\<close>; a dictionary is the list of its items in insertion
  order (the keys of a dictionary literal are distinct). A float is kept by its literal, the
  code never computes with one. Strings are ASCII texts.
\<close>

datatype json =
    JNull
  | JBool bool
  | JInt int
  | JFloat string
  | JStr string
  | JArr "json list"
  | JObj "(string \<times> json) list"

text \<open>The classes of the exceptions the tool bodies can raise, with \<^verbatim>\<open>str(e)\<close>.\<close>

datatype exn_class =
  AttributeError | KeyError | IndexError | TypeError | ValueError | OSError | RequestException

type_synonym exn = "exn_class \<times> string"

definition str_exn :: "exn \<Rightarrow> string" where
  "str_exn e = snd e"

fun obj_get :: "json \<Rightarrow> string \<Rightarrow> json option" where
  "obj_get (JObj kvs) k = map_of kvs k"
| "obj_get _ k = None"

fun obj_keys :: "json \<Rightarrow> string list" where
  "obj_keys (JObj kvs) = map fst kvs"
| "obj_keys _ = []"

definition is_success :: "json \<Rightarrow> bool" where
  "is_success r = (obj_get r ''success'' = Some (JBool True))"

definition is_failure :: "json \<Rightarrow> bool" where
  "is_failure r = (obj_get r ''success'' = Some (JBool False))"

subsection \<open>\<^verbatim>\<open>str.lower\<close> and \<^verbatim>\<open>str.upper\<close> on ASCII\<close>

definition lower_char :: "char \<Rightarrow> char" where
  "lower_char c =
     (let n = (of_char c :: nat) in if 65 \<le> n \<and> n \<le> 90 then char_of (n + 32) else c)"

definition upper_char :: "char \<Rightarrow> char" where
  "upper_char c =
     (let n = (of_char c :: nat) in if 97 \<le> n \<and> n \<le> 122 then char_of (n - 32) else c)"

definition str_lower :: "string \<Rightarrow> string" where
  "str_lower s = map lower_char s"

definition str_upper :: "string \<Rightarrow> string" where
  "str_upper s = map upper_char s"

subsection \<open>\<^verbatim>\<open>datetime.now()\<close> and its two formats\<close>

record datetime =
  year :: nat
  month :: nat
  day :: nat
  hour :: nat
  minute :: nat
  second :: nat
  microsecond :: nat

definition digit_char :: "nat \<Rightarrow> char" where
  "digit_char d = char_of (48 + d mod 10)"

text \<open>
  The \<open>k\<close> low decimal digits of \<open>n\<close>, zero-padded: what \<^verbatim>\<open>%m\<close>, \<^verbatim>\<open>%d\<close>, \<^verbatim>\<open>%H\<close>, \<^verbatim>\<open>%M\<close>,
  \<^verbatim>\<open>%S\<close> (width 2) and \<^verbatim>\<open>%Y\<close> (width 4) print for the fields of a \<^verbatim>\<open>datetime\<close>, whose
  ranges the type enforces; \<^verbatim>\<open>datetime.now()\<close> has a four-digit year.
\<close>

fun zpad :: "nat \<Rightarrow> nat \<Rightarrow> string" where
  "zpad 0 n = []"
| "zpad (Suc k) n = zpad k (n div 10) @ [digit_char n]"

definition strftime_YmdHMS :: "datetime \<Rightarrow> string" where
  "strftime_YmdHMS t =
     zpad 4 (year t) @ zpad 2 (month t) @ zpad 2 (day t)
       @ zpad 2 (hour t) @ zpad 2 (minute t) @ zpad 2 (second t)"

definition isoformat :: "datetime \<Rightarrow> string" where
  "isoformat t =
     zpad 4 (year t) @ ''-'' @ zpad 2 (month t) @ ''-'' @ zpad 2 (day t) @ ''T''
       @ zpad 2 (hour t) @ '':'' @ zpad 2 (minute t) @ '':'' @ zpad 2 (second t)
       @ (if microsecond t = 0 then [] else ''.'' @ zpad 6 (microsecond t))"

definition is_digit :: "char \<Rightarrow> bool" where
  "is_digit c = (let n = (of_char c :: nat) in 48 \<le> n \<and> n \<le> 57)"

text \<open>The regular expression \<^verbatim>\<open>P-\d{14}\<close> for a three-letter prefix \<open>P\<close>.\<close>

definition matches_ref :: "string \<Rightarrow> string \<Rightarrow> bool" where
  "matches_ref p s =
     (take 4 s = p @ ''-'' \<and> length (drop 4 s) = 14 \<and> list_all is_digit (drop 4 s))"

section \<open>The booking tool (\<^verbatim>\<open>booking_tool.py\<close>)\<close>

text \<open>
  What a stored file holds: the record \<^verbatim>\<open>json.dump\<close> wrote, or the beginning of one when
  the write broke off.
\<close>

datatype file_content = Written json | Truncated

type_synonym file_store = "string \<rightharpoonup> file_content"

text \<open>How the persistence steps of one call end.\<close>

datatype write_outcome =
    MakedirsFails exn
  | OpenFails exn
  | DumpFails exn
  | WriteOk

text \<open>
  What one call reads from its surroundings: \<^verbatim>\<open>json.loads\<close> (\<open>None\<close> where it raises),
  the two readings of the clock, and how the write ends.
\<close>

record booking_env =
  json_loads :: "string \<Rightarrow> json option"
  now_ref :: datetime
  now_created :: datetime
  write_result :: write_outcome

definition os_path_join :: "string \<Rightarrow> string \<Rightarrow> string" where
  "os_path_join a b = (if b \<noteq> [] \<and> hd b = CHR ''/'' then b else a @ ''/'' @ b)"

definition invalid_type_result :: json where
  "invalid_type_result =
     JObj [(''success'', JBool False),
           (''error'', JStr ''Invalid booking type. Must be 'flight' or 'hotel'.'')]"

definition booking_failed_result :: "exn \<Rightarrow> json" where
  "booking_failed_result e =
     JObj [(''success'', JBool False),
           (''error'', JStr (''Booking creation failed: '' @ str_exn e))]"

text \<open>Lines 40-45: a string is parsed, and wrapped when the parse raises.\<close>

definition parse_details :: "booking_env \<Rightarrow> json \<Rightarrow> json" where
  "parse_details env booking_details =
     (case booking_details of
        JStr s \<Rightarrow>
          (case json_loads env s of
             Some v \<Rightarrow> v
           | None \<Rightarrow> JObj [(''description'', JStr s)])
      | v \<Rightarrow> v)"

definition booking_ref :: "booking_env \<Rightarrow> string \<Rightarrow> string" where
  "booking_ref env booking_type =
     take 3 (str_upper booking_type) @ ''-'' @ strftime_YmdHMS (now_ref env)"

definition booking_record :: "booking_env \<Rightarrow> string \<Rightarrow> json \<Rightarrow> string \<Rightarrow> string \<Rightarrow> json" where
  "booking_record env booking_type booking_details customer_name customer_email =
     JObj [(''success'', JBool True),
           (''booking_reference'', JStr (booking_ref env booking_type)),
           (''booking_type'', JStr (str_lower booking_type)),
           (''status'', JStr ''CONFIRMED''),
           (''booking_details'', parse_details env booking_details),
           (''customer_info'',
              JObj [(''name'', JStr customer_name), (''email'', JStr customer_email)]),
           (''created_at'', JStr (isoformat (now_created env))),
           (''confirmation_message'',
              JStr (''Your '' @ booking_type @ '' booking has been confirmed!''))]"

definition booking_file :: "booking_env \<Rightarrow> string \<Rightarrow> string" where
  "booking_file env booking_type =
     os_path_join ''data/bookings'' (booking_ref env booking_type @ ''.json'')"

text \<open>
  The body of the \<^verbatim>\<open>try\<close> block: what it returns or raises, and the file store it
  leaves behind.
\<close>

definition create_booking_body ::
  "booking_env \<Rightarrow> file_store \<Rightarrow> string \<Rightarrow> json \<Rightarrow> string \<Rightarrow> string
     \<Rightarrow> (exn + json) \<times> file_store" where
  "create_booking_body env fs booking_type booking_details customer_name customer_email =
     (if str_lower booking_type \<notin> set [''flight'', ''hotel'']
      then (Inr invalid_type_result, fs)
      else
        let booking = booking_record env booking_type booking_details customer_name customer_email;
            path = booking_file env booking_type
        in (case write_result env of
              MakedirsFails e \<Rightarrow> (Inl e, fs)
            | OpenFails e \<Rightarrow> (Inl e, fs)
            | DumpFails e \<Rightarrow> (Inl e, fs(path \<mapsto> Truncated))
            | WriteOk \<Rightarrow> (Inr booking, fs(path \<mapsto> Written booking))))"

text \<open>\<open>create_booking\<close> with its \<^verbatim>\<open>except Exception\<close> clause.\<close>

definition create_booking ::
  "booking_env \<Rightarrow> file_store \<Rightarrow> string \<Rightarrow> json \<Rightarrow> string \<Rightarrow> string \<Rightarrow> json \<times> file_store" where
  "create_booking env fs booking_type booking_details customer_name customer_email =
     (case create_booking_body env fs booking_type booking_details customer_name customer_email of
        (Inl e, fs') \<Rightarrow> (booking_failed_result e, fs')
      | (Inr r, fs') \<Rightarrow> (r, fs'))"

section \<open>Sessions and the chat endpoint (\<^verbatim>\<open>memory.py\<close>, \<^verbatim>\<open>main.py\<close>)\<close>

text \<open>
  The messages a chat history can hold. The endpoint builds the first two; a tool message is
  what the agent keeps on its scratchpad during a run.
\<close>

datatype message = HumanMessage string | AIMessage string | ToolMessage string

text \<open>\<^verbatim>\<open>SimpleMemoryStore\<close>: the list of messages, \<open>add_message\<close> appends.\<close>

definition add_message :: "message list \<Rightarrow> message \<Rightarrow> message list" where
  "add_message messages m = messages @ [m]"

record session =
  memory :: "message list"
  created_at :: string

definition create_memory_for_session :: "string \<Rightarrow> message list" where
  "create_memory_for_session session_id = []"

type_synonym sessions = "string \<rightharpoonup> session"

record chat_request =
  req_message :: string
  req_session_id :: "string option"

record chat_response =
  response :: string
  resp_session_id :: string

datatype http_exception = HTTPException int string

text \<open>
  What one request reads from its surroundings: the two identifiers \<^verbatim>\<open>uuid\<close> hands out and
  the run of \<^verbatim>\<open>agent_executor.invoke\<close> on the input and the chat history, which raises or
  returns the text under \<^verbatim>\<open>"output"\<close>.
\<close>

record chat_world =
  uuid4 :: string
  uuid1_time :: string
  agent_invoke :: "string \<Rightarrow> message list \<Rightarrow> exn + string"

text \<open>\<^verbatim>\<open>request.session_id or str(uuid.uuid4())\<close>: \<^verbatim>\<open>None\<close> and the empty string are falsy.\<close>

definition turn_session_id :: "chat_world \<Rightarrow> chat_request \<Rightarrow> string" where
  "turn_session_id w request =
     (case req_session_id request of
        None \<Rightarrow> uuid4 w
      | Some sid \<Rightarrow> if sid = [] then uuid4 w else sid)"

definition new_session :: "chat_world \<Rightarrow> string \<Rightarrow> session" where
  "new_session w session_id =
     \<lparr>memory = create_memory_for_session session_id, created_at = uuid1_time w\<rparr>"

definition create_session :: "chat_world \<Rightarrow> sessions \<Rightarrow> string \<times> sessions" where
  "create_session w ss = (uuid4 w, ss(uuid4 w \<mapsto> new_session w (uuid4 w)))"

text \<open>
  \<open>chat\<close> returns the response or the \<^verbatim>\<open>HTTPException\<close> it raises, and the session table
  it leaves. The session is registered before the agent runs. The lookup
  \<^verbatim>\<open>sessions[session_id]\<close> raises \<^verbatim>\<open>KeyError\<close> on a missing key; the \<^verbatim>\<open>except\<close> clause turns
  every exception of the body into the 500 response. The two \<open>add_message\<close> calls come
  after \<^verbatim>\<open>invoke\<close> has returned.
\<close>

definition chat ::
  "chat_world \<Rightarrow> sessions \<Rightarrow> chat_request \<Rightarrow> (http_exception + chat_response) \<times> sessions" where
  "chat w ss request =
     (let session_id = turn_session_id w request;
          ss1 = (if ss session_id = None
                 then ss(session_id \<mapsto> new_session w session_id) else ss)
      in case ss1 session_id of
           None \<Rightarrow>
             (Inl (HTTPException 500
                (''Error processing request: '' @ [CHR 0x27] @ session_id @ [CHR 0x27])), ss1)
         | Some sess \<Rightarrow>
             (case agent_invoke w (req_message request) (memory sess) of
                Inl e \<Rightarrow>
                  (Inl (HTTPException 500 (''Error processing request: '' @ str_exn e)), ss1)
              | Inr out \<Rightarrow>
                  (Inr \<lparr>response = out, resp_session_id = session_id\<rparr>,
                   ss1(session_id \<mapsto>
                     sess\<lparr>memory :=
                       add_message
                         (add_message (memory sess) (HumanMessage (req_message request)))
                         (AIMessage out)\<rparr>))))"

definition delete_session :: "sessions \<Rightarrow> string \<Rightarrow> (http_exception + json) \<times> sessions" where
  "delete_session ss session_id =
     (if ss session_id \<noteq> None
      then (Inr (JObj [(''message'', JStr ''Session deleted successfully''),
                       (''session_id'', JStr session_id)]),
            ss(session_id := None))
      else (Inl (HTTPException 404 ''Session not found''), ss))"

text \<open>The messages a session holds; a session that does not exist holds none.\<close>

definition memory_of :: "sessions \<Rightarrow> string \<Rightarrow> message list" where
  "memory_of ss sid = (case ss sid of None \<Rightarrow> [] | Some s \<Rightarrow> memory s)"

text \<open>A sequence of requests, each with what it reads from its surroundings.\<close>

fun chat_turns :: "sessions \<Rightarrow> (chat_world \<times> chat_request) list \<Rightarrow> sessions" where
  "chat_turns ss [] = ss"
| "chat_turns ss ((w, request) # rest) = chat_turns (snd (chat w ss request)) rest"

text \<open>
  The turns of such a sequence that succeed on session \<open>sid\<close>, as pairs of the user's message
  and the assistant's reply.
\<close>

fun successful_turns ::
  "string \<Rightarrow> sessions \<Rightarrow> (chat_world \<times> chat_request) list \<Rightarrow> (string \<times> string) list" where
  "successful_turns sid ss [] = []"
| "successful_turns sid ss ((w, request) # rest) =
     (case chat w ss request of
        (Inr r, ss') \<Rightarrow>
          (if resp_session_id r = sid then [(req_message request, response r)] else [])
            @ successful_turns sid ss' rest
      | (Inl e, ss') \<Rightarrow> successful_turns sid ss' rest)"

definition exchange :: "string \<times> string \<Rightarrow> message list" where
  "exchange t = [HumanMessage (fst t), AIMessage (snd t)]"

section \<open>Python operations on parsed JSON\<close>

text \<open>
  The search tools read the provider's answer with \<^verbatim>\<open>.get\<close>, subscripts, \<^verbatim>\<open>in\<close>, slices
  and \<^verbatim>\<open>len\<close>. The answer is whatever JSON the provider sent, so each operation is defined
  on every value and raises where Python raises.
\<close>

definition quoted :: "string \<Rightarrow> string" where
  "quoted s = [CHR 0x27] @ s @ [CHR 0x27]"

fun type_name :: "json \<Rightarrow> string" where
  "type_name JNull = ''NoneType''"
| "type_name (JBool b) = ''bool''"
| "type_name (JInt i) = ''int''"
| "type_name (JFloat f) = ''float''"
| "type_name (JStr s) = ''str''"
| "type_name (JArr vs) = ''list''"
| "type_name (JObj kvs) = ''dict''"

definition not_subscriptable :: "json \<Rightarrow> exn" where
  "not_subscriptable v = (TypeError, quoted (type_name v) @ '' object is not subscriptable'')"

definition bind_exn :: "exn + 'a \<Rightarrow> ('a \<Rightarrow> exn + 'b) \<Rightarrow> exn + 'b" where
  "bind_exn m f = (case m of Inl e \<Rightarrow> Inl e | Inr v \<Rightarrow> f v)"

text \<open>\<^verbatim>\<open>x.get(k, d)\<close>\<close>

fun py_get :: "json \<Rightarrow> string \<Rightarrow> json \<Rightarrow> exn + json" where
  "py_get (JObj kvs) k d = Inr (case map_of kvs k of None \<Rightarrow> d | Some v \<Rightarrow> v)"
| "py_get v k d =
     Inl (AttributeError,
          quoted (type_name v) @ '' object has no attribute '' @ quoted ''get'')"

text \<open>\<^verbatim>\<open>x[k]\<close> for a string \<open>k\<close>\<close>

fun py_item :: "json \<Rightarrow> string \<Rightarrow> exn + json" where
  "py_item (JObj kvs) k =
     (case map_of kvs k of None \<Rightarrow> Inl (KeyError, quoted k) | Some v \<Rightarrow> Inr v)"
| "py_item (JArr vs) k = Inl (TypeError, ''list indices must be integers or slices, not str'')"
| "py_item (JStr s) k = Inl (TypeError, ''string indices must be integers, not '' @ quoted ''str'')"
| "py_item v k = Inl (not_subscriptable v)"

text \<open>\<^verbatim>\<open>x[0]\<close>; the keys of a parsed object are strings, so \<open>0\<close> is never one.\<close>

fun py_first :: "json \<Rightarrow> exn + json" where
  "py_first (JArr []) = Inl (IndexError, ''list index out of range'')"
| "py_first (JArr (v # vs)) = Inr v"
| "py_first (JStr []) = Inl (IndexError, ''string index out of range'')"
| "py_first (JStr (c # cs)) = Inr (JStr [c])"
| "py_first (JObj kvs) = Inl (KeyError, ''0'')"
| "py_first v = Inl (not_subscriptable v)"

definition is_substring :: "string \<Rightarrow> string \<Rightarrow> bool" where
  "is_substring k s = list_ex (\<lambda>i. take (length k) (drop i s) = k) [0..<Suc (length s)]"

text \<open>\<^verbatim>\<open>k in x\<close> for a string \<open>k\<close>\<close>

fun py_contains :: "json \<Rightarrow> string \<Rightarrow> exn + bool" where
  "py_contains (JObj kvs) k = Inr (k \<in> set (map fst kvs))"
| "py_contains (JArr vs) k = Inr (JStr k \<in> set vs)"
| "py_contains (JStr s) k = Inr (is_substring k s)"
| "py_contains v k =
     Inl (TypeError, ''argument of type '' @ quoted (type_name v) @ '' is not iterable'')"

text \<open>\<^verbatim>\<open>xs[:n]\<close> on a list: a negative \<open>n\<close> drops from the end.\<close>

definition py_take :: "int \<Rightarrow> 'a list \<Rightarrow> 'a list" where
  "py_take n xs = (if 0 \<le> n then take (nat n) xs else take (length xs - nat (- n)) xs)"

text \<open>The items a \<^verbatim>\<open>for\<close> loop visits in \<^verbatim>\<open>x[:n]\<close>.\<close>

fun py_slice_items :: "json \<Rightarrow> int \<Rightarrow> exn + json list" where
  "py_slice_items (JArr vs) n = Inr (py_take n vs)"
| "py_slice_items (JStr s) n = Inr (map (\<lambda>c. JStr [c]) (py_take n s))"
| "py_slice_items (JObj kvs) n = Inl (TypeError, ''unhashable type: '' @ quoted ''slice'')"
| "py_slice_items v n = Inl (not_subscriptable v)"

fun py_len :: "json \<Rightarrow> exn + nat" where
  "py_len (JArr vs) = Inr (length vs)"
| "py_len (JStr s) = Inr (length s)"
| "py_len (JObj kvs) = Inr (length kvs)"
| "py_len v = Inl (TypeError, ''object of type '' @ quoted (type_name v) @ '' has no len()'')"

text \<open>\<^verbatim>\<open>str(n)\<close> for a natural number.\<close>

fun str_nat :: "nat \<Rightarrow> string" where
  "str_nat n = (if n < 10 then [digit_char n] else str_nat (n div 10) @ [digit_char n])"

text \<open>An HTTP answer: its status and what \<^verbatim>\<open>.json()\<close> gives or raises.\<close>

record http_response =
  status_code :: int
  json_body :: "exn + json"

text \<open>A value of Python that tests false: \<^verbatim>\<open>None\<close> or the empty string.\<close>

definition falsy :: "string option \<Rightarrow> bool" where
  "falsy v = (v = None \<or> v = Some [])"

definition opt_json :: "string option \<Rightarrow> json" where
  "opt_json v = (case v of None \<Rightarrow> JNull | Some s \<Rightarrow> JStr s)"

definition array_items :: "json \<Rightarrow> string \<Rightarrow> json list" where
  "array_items r k = (case obj_get r k of Some (JArr vs) \<Rightarrow> vs | _ \<Rightarrow> [])"

section \<open>The flight search tool (\<^verbatim>\<open>flight_search.py\<close>)\<close>

record flight_world =
  serpapi_key :: "string option"
  serpapi_get :: "(string \<times> string) list \<Rightarrow> exn + http_response"

definition mock_flights :: "json list" where
  "mock_flights =
     [JObj [(''price'', JStr ''$450''), (''airline'', JStr ''Air India''),
            (''departure_time'', JStr ''10:30 AM''), (''arrival_time'', JStr ''02:45 PM''),
            (''duration'', JStr ''2h 15m''), (''layovers'', JInt 0)],
      JObj [(''price'', JStr ''$380''), (''airline'', JStr ''IndiGo''),
            (''departure_time'', JStr ''06:15 AM''), (''arrival_time'', JStr ''10:30 AM''),
            (''duration'', JStr ''2h 15m''), (''layovers'', JInt 0)],
      JObj [(''price'', JStr ''$520''), (''airline'', JStr ''Vistara''),
            (''departure_time'', JStr ''03:00 PM''), (''arrival_time'', JStr ''07:20 PM''),
            (''duration'', JStr ''2h 20m''), (''layovers'', JInt 0)],
      JObj [(''price'', JStr ''$340''), (''airline'', JStr ''SpiceJet''),
            (''departure_time'', JStr ''11:45 PM''), (''arrival_time'', JStr ''04:00 AM (+1)''),
            (''duration'', JStr ''2h 15m''), (''layovers'', JInt 0)]]"

definition get_mock_flight_data :: "string \<Rightarrow> string \<Rightarrow> string \<Rightarrow> string option \<Rightarrow> json" where
  "get_mock_flight_data origin destination departure_date return_date =
     JObj [(''success'', JBool True),
           (''origin'', JStr origin),
           (''destination'', JStr destination),
           (''departure_date'', JStr departure_date),
           (''return_date'', opt_json return_date),
           (''flights'', JArr mock_flights),
           (''count'', JInt (int (length mock_flights))),
           (''note'', JStr ''Sample data shown. Configure SERPAPI_KEY for live data.'')]"

definition flight_params ::
  "string \<Rightarrow> string \<Rightarrow> string \<Rightarrow> string \<Rightarrow> string option \<Rightarrow> (string \<times> string) list" where
  "flight_params api_key origin destination departure_date return_date =
     [(''engine'', ''google_flights''), (''departure_id'', origin),
      (''arrival_id'', destination), (''outbound_date'', departure_date),
      (''api_key'', api_key), (''currency'', ''USD''), (''hl'', ''en'')]
     @ (case return_date of
          None \<Rightarrow> [(''type'', ''2'')]
        | Some d \<Rightarrow> if d = [] then [(''type'', ''2'')] else [(''return_date'', d), (''type'', ''1'')])"

text \<open>Lines 70-77: one entry of the result, from one element of \<^verbatim>\<open>best_flights\<close>.\<close>

definition flight_entry :: "json \<Rightarrow> exn + json" where
  "flight_entry flight =
     bind_exn (py_get flight ''price'' (JStr ''N/A'')) (\<lambda>price.
     bind_exn (py_item flight ''flights'') (\<lambda>legs.
     bind_exn (py_first legs) (\<lambda>leg.
     bind_exn (py_get leg ''airline'' (JStr ''Unknown'')) (\<lambda>airline.
     bind_exn (py_get leg ''departure_airport'' (JObj [])) (\<lambda>dep.
     bind_exn (py_get dep ''time'' (JStr ''N/A'')) (\<lambda>departure_time.
     bind_exn (py_get leg ''arrival_airport'' (JObj [])) (\<lambda>arr.
     bind_exn (py_get arr ''time'' (JStr ''N/A'')) (\<lambda>arrival_time.
     bind_exn (py_get flight ''total_duration'' (JStr ''N/A'')) (\<lambda>duration.
     bind_exn (py_get flight ''flights'' (JArr [])) (\<lambda>all_legs.
     bind_exn (py_len all_legs) (\<lambda>n.
       Inr (JObj [(''price'', price), (''airline'', airline),
                  (''departure_time'', departure_time), (''arrival_time'', arrival_time),
                  (''duration'', duration), (''layovers'', JInt (int n - 1))]))))))))))))"

text \<open>The loop of lines 69-77, with the list \<^verbatim>\<open>flights\<close> built so far.\<close>

fun collect_flights :: "json list \<Rightarrow> json list \<Rightarrow> exn + json list" where
  "collect_flights [] flights = Inr flights"
| "collect_flights (flight # rest) flights =
     (case flight_entry flight of
        Inl e \<Rightarrow> Inl e
      | Inr entry \<Rightarrow> collect_flights rest (flights @ [entry]))"

definition flight_result ::
  "string \<Rightarrow> string \<Rightarrow> string \<Rightarrow> string option \<Rightarrow> json list \<Rightarrow> json" where
  "flight_result origin destination departure_date return_date flights =
     JObj [(''success'', JBool True),
           (''origin'', JStr origin),
           (''destination'', JStr destination),
           (''departure_date'', JStr departure_date),
           (''return_date'', opt_json return_date),
           (''flights'', JArr flights),
           (''count'', JInt (int (length flights)))]"

definition flight_failed_result :: "exn \<Rightarrow> json" where
  "flight_failed_result e =
     JObj [(''success'', JBool False),
           (''error'', JStr (''Flight search failed: '' @ str_exn e)),
           (''message'', JStr ''Using sample data instead'')]"

text \<open>Lines 66-77: the flights read from the provider's answer.\<close>

definition best_flights :: "json \<Rightarrow> exn + json list" where
  "best_flights data =
     bind_exn (py_contains data ''best_flights'') (\<lambda>present.
       if present
       then bind_exn (py_item data ''best_flights'') (\<lambda>best.
            bind_exn (py_slice_items best 5) (\<lambda>items. collect_flights items []))
       else Inr [])"

text \<open>The body of the \<^verbatim>\<open>try\<close> block of \<open>search_flights\<close>.\<close>

definition search_flights_body ::
  "flight_world \<Rightarrow> string \<Rightarrow> string \<Rightarrow> string \<Rightarrow> string option \<Rightarrow> exn + json" where
  "search_flights_body w origin destination departure_date return_date =
     (case serpapi_key w of
        None \<Rightarrow> Inr (get_mock_flight_data origin destination departure_date return_date)
      | Some api_key \<Rightarrow>
          if api_key = []
          then Inr (get_mock_flight_data origin destination departure_date return_date)
          else
            bind_exn
              (serpapi_get w (flight_params api_key origin destination departure_date return_date))
              (\<lambda>response.
                 if status_code response = 200
                 then bind_exn (json_body response) (\<lambda>data.
                      bind_exn (best_flights data) (\<lambda>flights.
                        Inr (flight_result origin destination departure_date return_date flights)))
                 else Inr (get_mock_flight_data origin destination departure_date return_date)))"

definition search_flights ::
  "flight_world \<Rightarrow> string \<Rightarrow> string \<Rightarrow> string \<Rightarrow> string option \<Rightarrow> json" where
  "search_flights w origin destination departure_date return_date =
     (case search_flights_body w origin destination departure_date return_date of
        Inl e \<Rightarrow> flight_failed_result e
      | Inr r \<Rightarrow> r)"

section \<open>The hotel search tool (\<^verbatim>\<open>hotel_search.py\<close>)\<close>

text \<open>
  The token request gets the form data; the search request gets the access token, from which
  the \<^verbatim>\<open>Authorization\<close> header is formatted, and the query parameters.
\<close>

record hotel_world =
  amadeus_api_key :: "string option"
  amadeus_api_secret :: "string option"
  token_post :: "(string \<times> string) list \<Rightarrow> exn + http_response"
  hotels_get :: "json \<Rightarrow> (string \<times> json) list \<Rightarrow> exn + http_response"

definition mock_hotels :: "string \<Rightarrow> json list" where
  "mock_hotels city =
     [JObj [(''name'', JStr ''Grand Plaza Hotel''), (''hotel_id'', JStr ''H001''),
            (''address'', JStr (city @ '' City Center'')), (''rating'', JStr ''4.5''),
            (''price_per_night'', JStr ''$120''),
            (''amenities'', JArr [JStr ''WiFi'', JStr ''Pool'', JStr ''Gym'',
               JStr ''Restaurant'', JStr ''Spa''])],
      JObj [(''name'', JStr ''City View Inn''), (''hotel_id'', JStr ''H002''),
            (''address'', JStr (city @ '' Downtown'')), (''rating'', JStr ''4.2''),
            (''price_per_night'', JStr ''$95''),
            (''amenities'', JArr [JStr ''WiFi'', JStr ''Breakfast'', JStr ''Parking'',
               JStr ''Airport Shuttle''])],
      JObj [(''name'', JStr ''Luxury Suites''), (''hotel_id'', JStr ''H003''),
            (''address'', JStr (city @ '' Business District'')), (''rating'', JStr ''4.8''),
            (''price_per_night'', JStr ''$180''),
            (''amenities'', JArr [JStr ''WiFi'', JStr ''Pool'', JStr ''Gym'',
               JStr ''Restaurant'', JStr ''Bar'', JStr ''Spa'', JStr ''Conference Rooms''])],
      JObj [(''name'', JStr ''Budget Stay Hotel''), (''hotel_id'', JStr ''H004''),
            (''address'', JStr (city @ '' Airport Area'')), (''rating'', JStr ''3.9''),
            (''price_per_night'', JStr ''$65''),
            (''amenities'', JArr [JStr ''WiFi'', JStr ''Breakfast'', JStr ''24/7 Reception''])],
      JObj [(''name'', JStr ''Boutique Heritage Hotel''), (''hotel_id'', JStr ''H005''),
            (''address'', JStr (city @ '' Old Town'')), (''rating'', JStr ''4.6''),
            (''price_per_night'', JStr ''$145''),
            (''amenities'', JArr [JStr ''WiFi'', JStr ''Restaurant'', JStr ''Rooftop Terrace'',
               JStr ''Heritage Tours''])]]"

definition get_mock_hotel_data :: "string \<Rightarrow> string \<Rightarrow> string \<Rightarrow> int \<Rightarrow> int \<Rightarrow> json" where
  "get_mock_hotel_data city check_in check_out guests max_results =
     JObj [(''success'', JBool True),
           (''city'', JStr city),
           (''check_in'', JStr check_in),
           (''check_out'', JStr check_out),
           (''guests'', JInt guests),
           (''hotels'', JArr (py_take max_results (mock_hotels city))),
           (''count'', JInt (min (int (length (mock_hotels city))) max_results)),
           (''note'', JStr ''Sample data shown. Configure AMADEUS_API_KEY for live data.'')]"

definition token_data :: "string \<Rightarrow> string \<Rightarrow> (string \<times> string) list" where
  "token_data api_key api_secret =
     [(''grant_type'', ''client_credentials''), (''client_id'', api_key),
      (''client_secret'', api_secret)]"

definition hotel_params :: "string \<Rightarrow> (string \<times> json) list" where
  "hotel_params city =
     [(''cityCode'', JStr (if length city = 3 then str_upper (take 3 city) else city)),
      (''radius'', JInt 5), (''radiusUnit'', JStr ''KM''), (''hotelSource'', JStr ''ALL'')]"

text \<open>
  Lines 73-80: one entry of the result, from one element of the listing; \<open>n\<close> is the
  number of entries collected before it.
\<close>

definition hotel_entry :: "string \<Rightarrow> nat \<Rightarrow> json \<Rightarrow> exn + json" where
  "hotel_entry city n hotel =
     bind_exn (py_get hotel ''name'' (JStr ''Unknown Hotel'')) (\<lambda>name.
     bind_exn (py_get hotel ''hotelId'' (JStr ''N/A'')) (\<lambda>hotel_id.
     bind_exn (py_get hotel ''address'' (JObj [])) (\<lambda>address.
     bind_exn (py_get address ''cityName'' (JStr city)) (\<lambda>city_name.
       Inr (JObj [(''name'', name), (''hotel_id'', hotel_id), (''address'', city_name),
                  (''rating'', JStr ''4.5''),
                  (''price_per_night'', JStr (''$'' @ str_nat (100 + n * 25))),
                  (''amenities'', JArr [JStr ''WiFi'', JStr ''Pool'', JStr ''Gym'',
                     JStr ''Restaurant''])])))))"

text \<open>The loop of lines 72-80, with the list \<^verbatim>\<open>hotels\<close> built so far.\<close>

fun collect_hotels :: "string \<Rightarrow> json list \<Rightarrow> json list \<Rightarrow> exn + json list" where
  "collect_hotels city [] hotels = Inr hotels"
| "collect_hotels city (hotel # rest) hotels =
     (case hotel_entry city (length hotels) hotel of
        Inl e \<Rightarrow> Inl e
      | Inr entry \<Rightarrow> collect_hotels city rest (hotels @ [entry]))"

definition hotel_result :: "string \<Rightarrow> string \<Rightarrow> string \<Rightarrow> int \<Rightarrow> json list \<Rightarrow> json" where
  "hotel_result city check_in check_out guests hotels =
     JObj [(''success'', JBool True),
           (''city'', JStr city),
           (''check_in'', JStr check_in),
           (''check_out'', JStr check_out),
           (''guests'', JInt guests),
           (''hotels'', JArr hotels),
           (''count'', JInt (int (length hotels)))]"

definition hotel_failed_result :: "exn \<Rightarrow> json" where
  "hotel_failed_result e =
     JObj [(''success'', JBool False),
           (''error'', JStr (''Hotel search failed: '' @ str_exn e)),
           (''message'', JStr ''Using sample data instead'')]"

text \<open>Lines 69-80: the hotels read from the provider's answer.\<close>

definition listed_hotels :: "string \<Rightarrow> int \<Rightarrow> json \<Rightarrow> exn + json list" where
  "listed_hotels city max_results data =
     bind_exn (py_get data ''data'' (JArr [])) (\<lambda>listing.
     bind_exn (py_slice_items listing max_results) (\<lambda>items. collect_hotels city items []))"

text \<open>The body of the \<^verbatim>\<open>try\<close> block of \<open>search_hotels\<close>.\<close>

definition search_hotels_body ::
  "hotel_world \<Rightarrow> string \<Rightarrow> string \<Rightarrow> string \<Rightarrow> int \<Rightarrow> int \<Rightarrow> exn + json" where
  "search_hotels_body w city check_in check_out guests max_results =
     (if falsy (amadeus_api_key w) \<or> falsy (amadeus_api_secret w)
      then Inr (get_mock_hotel_data city check_in check_out guests max_results)
      else
        bind_exn
          (token_post w
             (token_data (case amadeus_api_key w of None \<Rightarrow> [] | Some k \<Rightarrow> k)
                (case amadeus_api_secret w of None \<Rightarrow> [] | Some k \<Rightarrow> k)))
          (\<lambda>token_response.
             if status_code token_response \<noteq> 200
             then Inr (get_mock_hotel_data city check_in check_out guests max_results)
             else
               bind_exn (json_body token_response) (\<lambda>token.
               bind_exn (py_item token ''access_token'') (\<lambda>access_token.
               bind_exn (hotels_get w access_token (hotel_params city)) (\<lambda>response.
                 if status_code response = 200
                 then bind_exn (json_body response) (\<lambda>data.
                      bind_exn (listed_hotels city max_results data) (\<lambda>hotels.
                        Inr (hotel_result city check_in check_out guests hotels)))
                 else Inr (get_mock_hotel_data city check_in check_out guests max_results))))))"

definition search_hotels ::
  "hotel_world \<Rightarrow> string \<Rightarrow> string \<Rightarrow> string \<Rightarrow> int \<Rightarrow> int \<Rightarrow> json" where
  "search_hotels w city check_in check_out guests max_results =
     (case search_hotels_body w city check_in check_out guests max_results of
        Inl e \<Rightarrow> hotel_failed_result e
      | Inr r \<Rightarrow> r)"

section \<open>Example surroundings\<close>

definition example_clock :: datetime where
  "example_clock = \<lparr>year = 2025, month = 6, day = 1, hour = 9, minute = 5, second = 7,
     microsecond = 123456\<rparr>"

definition example_env :: booking_env where
  "example_env = \<lparr>json_loads = Map.empty, now_ref = example_clock,
     now_created = example_clock, write_result = WriteOk\<rparr>"

definition read_only_env :: booking_env where
  "read_only_env = \<lparr>json_loads = Map.empty, now_ref = example_clock,
     now_created = example_clock,
     write_result = OpenFails (OSError, ''[Errno 30] Read-only file system'')\<rparr>"

definition example_sessions :: sessions where
  "example_sessions = [''s1'' \<mapsto> \<lparr>memory = [], created_at = ''1''\<rparr>]"

definition failing_world :: chat_world where
  "failing_world = \<lparr>uuid4 = ''u1'', uuid1_time = ''1'',
     agent_invoke = (\<lambda>input history. Inl (RequestException, ''Connection error.''))\<rparr>"

definition echo_world :: chat_world where
  "echo_world = \<lparr>uuid4 = ''u1'', uuid1_time = ''1'',
     agent_invoke = (\<lambda>input history. Inr (''Re: '' @ input))\<rparr>"

definition example_turns :: "(chat_world \<times> chat_request) list" where
  "example_turns =
     [(echo_world, \<lparr>req_message = ''hi'', req_session_id = None\<rparr>),
      (failing_world, \<lparr>req_message = ''again'', req_session_id = Some ''u1''\<rparr>),
      (echo_world, \<lparr>req_message = ''bye'', req_session_id = Some ''u1''\<rparr>)]"

definition example_history :: sessions where
  "example_history =
     [''u1'' \<mapsto> \<lparr>memory = [HumanMessage ''hi'', AIMessage ''Re: hi''], created_at = ''1''\<rparr>]"

definition no_key_flights :: flight_world where
  "no_key_flights = \<lparr>serpapi_key = None,
     serpapi_get = (\<lambda>params. Inl (RequestException, ''Connection refused''))\<rparr>"

definition down_flights :: flight_world where
  "down_flights = \<lparr>serpapi_key = Some ''key'',
     serpapi_get = (\<lambda>params. Inl (RequestException, ''Connection refused''))\<rparr>"

definition live_flights_answer :: json where
  "live_flights_answer =
     JObj [(''best_flights'',
        JArr [JObj [(''price'', JInt 512),
                    (''flights'', JArr [JObj [(''airline'', JStr ''Air France'')]]),
                    (''total_duration'', JInt 440)]])]"

definition live_flights :: flight_world where
  "live_flights = \<lparr>serpapi_key = Some ''key'',
     serpapi_get = (\<lambda>params. Inr \<lparr>status_code = 200, json_body = Inr live_flights_answer\<rparr>)\<rparr>"

definition no_key_hotels :: hotel_world where
  "no_key_hotels = \<lparr>amadeus_api_key = None, amadeus_api_secret = None,
     token_post = (\<lambda>form. Inl (RequestException, ''Connection refused'')),
     hotels_get = (\<lambda>token params. Inl (RequestException, ''Connection refused''))\<rparr>"

definition down_hotels :: hotel_world where
  "down_hotels = \<lparr>amadeus_api_key = Some ''key'', amadeus_api_secret = Some ''secret'',
     token_post = (\<lambda>form. Inl (RequestException, ''Connection refused'')),
     hotels_get = (\<lambda>token params. Inl (RequestException, ''Connection refused''))\<rparr>"

definition live_hotels_answer :: json where
  "live_hotels_answer =
     JObj [(''data'', JArr [JObj [(''name'', JStr ''Hotel du Nord''), (''hotelId'', JStr ''HN01'')],
                            JObj [(''name'', JStr ''Hotel Lutetia'')]])]"

definition live_hotels :: hotel_world where
  "live_hotels = \<lparr>amadeus_api_key = Some ''key'', amadeus_api_secret = Some ''secret'',
     token_post = (\<lambda>form. Inr \<lparr>status_code = 200,
        json_body = Inr (JObj [(''access_token'', JStr ''t0'')])\<rparr>),
     hotels_get = (\<lambda>token params. Inr \<lparr>status_code = 200, json_body = Inr live_hotels_answer\<rparr>)\<rparr>"

definition busy_flights :: flight_world where
  "busy_flights = \<lparr>serpapi_key = Some ''key'',
     serpapi_get = (\<lambda>params. Inr \<lparr>status_code = 429,
        json_body = Inl (ValueError, ''Expecting value: line 1 column 1 (char 0)'')\<rparr>)\<rparr>"

definition busy_search_hotels :: hotel_world where
  "busy_search_hotels = \<lparr>amadeus_api_key = Some ''key'', amadeus_api_secret = Some ''secret'',
     token_post = (\<lambda>form. Inr \<lparr>status_code = 200,
        json_body = Inr (JObj [(''access_token'', JStr ''t0'')])\<rparr>),
     hotels_get = (\<lambda>token params. Inr \<lparr>status_code = 503,
        json_body = Inl (ValueError, ''Expecting value: line 1 column 1 (char 0)'')\<rparr>)\<rparr>"

definition busy_hotels :: hotel_world where
  "busy_hotels = \<lparr>amadeus_api_key = Some ''key'', amadeus_api_secret = Some ''secret'',
     token_post = (\<lambda>form. Inr \<lparr>status_code = 401,
        json_body = Inr (JObj [(''error'', JStr ''invalid_client'')])\<rparr>),
     hotels_get = (\<lambda>token params. Inl (RequestException, ''Connection refused''))\<rparr>"

section \<open>Properties of the booking tool\<close>

subsection \<open>Case mapping and the timestamp\<close>

lemma upper_lower_char: "upper_char (lower_char c) = upper_char c"
  by (auto simp: upper_char_def lower_char_def Let_def)

lemma str_upper_lower: "str_upper (str_lower s) = str_upper s"
  by (simp add: str_upper_def str_lower_def upper_lower_char)

lemma upper_flight: "str_upper ''flight'' = ''FLIGHT''"
  by code_simp

lemma upper_hotel: "str_upper ''hotel'' = ''HOTEL''"
  by code_simp

lemma lower_hotel: "str_lower ''hotel'' = ''hotel''"
  by code_simp

lemma lower_train: "str_lower ''train'' = ''train''"
  by code_simp

lemma lower_Flight: "str_lower ''Flight'' = ''flight''"
  by code_simp

lemma upper_Flight: "str_upper ''Flight'' = ''FLIGHT''"
  by code_simp

lemma type3_hotel: "str_lower bt = ''hotel'' \<Longrightarrow> take 3 (str_upper bt) = ''HOT''"
proof -
  assume "str_lower bt = ''hotel''"
  then have "str_upper bt = str_upper ''hotel''"
    using str_upper_lower [of bt] by simp
  then show ?thesis by (simp add: upper_hotel)
qed

lemma type3_flight: "str_lower bt = ''flight'' \<Longrightarrow> take 3 (str_upper bt) = ''FLI''"
proof -
  assume "str_lower bt = ''flight''"
  then have "str_upper bt = str_upper ''flight''"
    using str_upper_lower [of bt] by simp
  then show ?thesis by (simp add: upper_flight)
qed

lemma length_zpad: "length (zpad k n) = k"
  by (induction k arbitrary: n) auto

lemma is_digit_digit_char: "is_digit (digit_char d)"
  by (simp add: is_digit_def digit_char_def Let_def)

lemma digits_zpad: "list_all is_digit (zpad k n)"
  by (induction k arbitrary: n) (auto simp: is_digit_digit_char)

lemma length_strftime: "length (strftime_YmdHMS t) = 14"
  by (simp add: strftime_YmdHMS_def length_zpad)

lemma digits_strftime: "list_all is_digit (strftime_YmdHMS t)"
  by (simp add: strftime_YmdHMS_def digits_zpad)

lemma strftime_second_resolution:
  "strftime_YmdHMS (t\<lparr>microsecond := u\<rparr>) = strftime_YmdHMS t"
  by (simp add: strftime_YmdHMS_def)

lemma matches_ref_stamp:
  "length p = 3 \<Longrightarrow> matches_ref p (p @ ''-'' @ strftime_YmdHMS t)"
  by (simp add: matches_ref_def length_strftime digits_strftime)

lemma zpad2: "zpad 2 n = [digit_char (n div 10), digit_char n]"
  by (simp add: numeral_2_eq_2)

lemma zpad4:
  "zpad 4 n = [digit_char (n div 10 div 10 div 10), digit_char (n div 10 div 10),
               digit_char (n div 10), digit_char n]"
proof -
  have "(4::nat) = Suc (Suc (Suc (Suc 0)))"
    by simp
  then show ?thesis
    by (simp only: zpad.simps append.simps)
qed

lemma example_stamp: "strftime_YmdHMS example_clock = ''20250601090507''"
  by (simp add: strftime_YmdHMS_def example_clock_def zpad2 zpad4 digit_char_def char_of_def
        bit_Suc_0_iff)

subsection \<open>The outcomes of one call\<close>

lemma create_booking_invalid:
  "str_lower bt \<noteq> ''flight'' \<Longrightarrow> str_lower bt \<noteq> ''hotel'' \<Longrightarrow>
   create_booking env fs bt d n e = (invalid_type_result, fs)"
  by (simp add: create_booking_def create_booking_body_def)

lemma create_booking_valid:
  "str_lower bt = ''flight'' \<or> str_lower bt = ''hotel'' \<Longrightarrow>
   create_booking env fs bt d n e =
     (case write_result env of
        MakedirsFails x \<Rightarrow> (booking_failed_result x, fs)
      | OpenFails x \<Rightarrow> (booking_failed_result x, fs)
      | DumpFails x \<Rightarrow> (booking_failed_result x, fs(booking_file env bt \<mapsto> Truncated))
      | WriteOk \<Rightarrow> (booking_record env bt d n e,
                    fs(booking_file env bt \<mapsto> Written (booking_record env bt d n e))))"
  by (auto simp: create_booking_def create_booking_body_def Let_def split: write_outcome.splits)

lemma not_success_invalid: "\<not> is_success invalid_type_result"
  by (simp add: is_success_def invalid_type_result_def)

lemma failure_invalid: "is_failure invalid_type_result"
  by (simp add: is_failure_def invalid_type_result_def)

lemma not_success_failed: "\<not> is_success (booking_failed_result x)"
  by (simp add: is_success_def booking_failed_result_def)

lemma failure_failed: "is_failure (booking_failed_result x)"
  by (simp add: is_failure_def booking_failed_result_def)

lemma success_record: "is_success (booking_record env bt d n e)"
  by (simp add: is_success_def booking_record_def)

lemma create_booking_success_iff:
  "is_success (fst (create_booking env fs bt d n e)) \<longleftrightarrow>
   (str_lower bt = ''flight'' \<or> str_lower bt = ''hotel'') \<and> write_result env = WriteOk"
proof (cases "str_lower bt = ''flight'' \<or> str_lower bt = ''hotel''")
  case True
  then show ?thesis
    by (simp add: create_booking_valid not_success_failed success_record
          split: write_outcome.splits)
next
  case False
  then show ?thesis
    by (simp add: create_booking_invalid not_success_invalid)
qed

lemma create_booking_success:
  "is_success (fst (create_booking env fs bt d n e)) \<Longrightarrow>
   create_booking env fs bt d n e =
     (booking_record env bt d n e,
      fs(booking_file env bt \<mapsto> Written (booking_record env bt d n e)))"
  by (simp add: create_booking_success_iff create_booking_valid)

lemma example_success:
  "is_success (fst (create_booking example_env Map.empty ''hotel''
     (JStr ''Grand Plaza, 2 nights'') ''A. Traveler'' ''a@x.com''))"
  by (simp add: create_booking_success_iff lower_hotel example_env_def)

text \<open>
  C3. A booking type whose lowercase form is neither \<open>flight\<close> nor \<open>hotel\<close> gets a result
  with \<open>success: false\<close>, and the file store is left as it was: no booking record is
  written.
\<close>

theorem create_booking_rejects_other_types:
  "str_lower bt \<noteq> ''flight'' \<Longrightarrow> str_lower bt \<noteq> ''hotel'' \<Longrightarrow>
   is_failure (fst (create_booking env fs bt d n e)) \<and>
   snd (create_booking env fs bt d n e) = fs"
  by (simp add: create_booking_invalid failure_invalid)

theorem create_booking_rejects_other_types_witness:
  "str_lower ''train'' \<noteq> ''flight'' \<and> str_lower ''train'' \<noteq> ''hotel'' \<and>
   is_failure (fst (create_booking example_env Map.empty ''train'' (JStr ''{}'') ''A''
     ''a@x.com'')) \<and>
   snd (create_booking example_env Map.empty ''train'' (JStr ''{}'') ''A'' ''a@x.com'')
     = Map.empty"
proof -
  have a: "str_lower ''train'' \<noteq> ''flight''" and b: "str_lower ''train'' \<noteq> ''hotel''"
    by (simp_all add: lower_train)
  show ?thesis
    using a b
      create_booking_rejects_other_types
        [OF a b, of example_env Map.empty "JStr ''{}''" "''A''" "''a@x.com''"]
    by simp
qed

text \<open>
  C5. A call that succeeds returns a record with status \<open>CONFIRMED\<close> whose reference is the
  first three letters of the upper-cased booking type, a hyphen, and the clock reading
  printed as fourteen digits down to the second (the microseconds do not enter it). For a
  hotel booking the reference matches \<^verbatim>\<open>HOT-\d{14}\<close>, for a flight booking
  \<^verbatim>\<open>FLI-\d{14}\<close>.
\<close>

theorem create_booking_confirmed_reference:
  assumes "is_success (fst (create_booking env fs bt d n e))"
  shows "obj_get (fst (create_booking env fs bt d n e)) ''status'' = Some (JStr ''CONFIRMED'') \<and>
         obj_get (fst (create_booking env fs bt d n e)) ''booking_reference''
           = Some (JStr (take 3 (str_upper bt) @ ''-'' @ strftime_YmdHMS (now_ref env))) \<and>
         length (strftime_YmdHMS (now_ref env)) = 14 \<and>
         list_all is_digit (strftime_YmdHMS (now_ref env)) \<and>
         strftime_YmdHMS ((now_ref env)\<lparr>microsecond := u\<rparr>) = strftime_YmdHMS (now_ref env) \<and>
         (str_lower bt = ''hotel'' \<longrightarrow>
            matches_ref ''HOT'' (take 3 (str_upper bt) @ ''-'' @ strftime_YmdHMS (now_ref env))) \<and>
         (str_lower bt = ''flight'' \<longrightarrow>
            matches_ref ''FLI'' (take 3 (str_upper bt) @ ''-'' @ strftime_YmdHMS (now_ref env)))"
proof -
  have r: "fst (create_booking env fs bt d n e) = booking_record env bt d n e"
    using create_booking_success [OF assms] by simp
  have "matches_ref ''HOT'' (take 3 (str_upper bt) @ ''-'' @ strftime_YmdHMS (now_ref env))"
    if "str_lower bt = ''hotel''"
    using type3_hotel [OF that] matches_ref_stamp [of "''HOT''" "now_ref env"] by simp
  moreover
  have "matches_ref ''FLI'' (take 3 (str_upper bt) @ ''-'' @ strftime_YmdHMS (now_ref env))"
    if "str_lower bt = ''flight''"
    using type3_flight [OF that] matches_ref_stamp [of "''FLI''" "now_ref env"] by simp
  ultimately show ?thesis
    unfolding r
    by (simp add: booking_record_def booking_ref_def length_strftime digits_strftime
          strftime_second_resolution)
qed

lemma example_success_flight:
  "is_success (fst (create_booking example_env Map.empty ''Flight''
     (JStr ''AF 007'') ''A. Traveler'' ''a@x.com''))"
  by (simp add: create_booking_success_iff lower_Flight example_env_def)

theorem create_booking_confirmed_reference_witness:
  "is_success (fst (create_booking example_env Map.empty ''hotel''
     (JStr ''Grand Plaza, 2 nights'') ''A. Traveler'' ''a@x.com'')) \<and>
   obj_get (fst (create_booking example_env Map.empty ''hotel''
     (JStr ''Grand Plaza, 2 nights'') ''A. Traveler'' ''a@x.com'')) ''booking_reference''
     = Some (JStr ''HOT-20250601090507'') \<and>
   str_lower ''hotel'' = ''hotel'' \<and>
   matches_ref ''HOT'' ''HOT-20250601090507'' \<and>
   is_success (fst (create_booking example_env Map.empty ''Flight''
     (JStr ''AF 007'') ''A. Traveler'' ''a@x.com'')) \<and>
   str_lower ''Flight'' = ''flight'' \<and>
   matches_ref ''FLI'' ''FLI-20250601090507''"
proof -
  have now: "now_ref example_env = example_clock"
    by (simp add: example_env_def)
  have hotel:
    "obj_get (fst (create_booking example_env Map.empty ''hotel''
       (JStr ''Grand Plaza, 2 nights'') ''A. Traveler'' ''a@x.com'')) ''booking_reference''
       = Some (JStr ''HOT-20250601090507'') \<and>
     matches_ref ''HOT'' ''HOT-20250601090507''"
    using create_booking_confirmed_reference [OF example_success, of 0]
    by (simp add: lower_hotel upper_hotel now example_stamp)
  have flight: "matches_ref ''FLI'' ''FLI-20250601090507''"
    using create_booking_confirmed_reference [OF example_success_flight, of 0]
    by (simp add: lower_Flight upper_Flight now example_stamp)
  show ?thesis
    using example_success example_success_flight hotel flight
    by (simp add: lower_hotel lower_Flight)
qed

text \<open>
  C8, as stated, fails where the booking file cannot be written: the call then returns
  \<open>success: false\<close> although the type is valid and the details are plain text.
\<close>

theorem create_booking_text_fails_without_write:
  "\<not> is_success (fst (create_booking read_only_env Map.empty ''hotel''
     (JStr ''Grand Plaza, 2 nights'') ''A. Traveler'' ''a@x.com''))"
  by (simp add: create_booking_success_iff read_only_env_def)

text \<open>
  C8, amended. With a valid booking type and details that are a text \<^verbatim>\<open>json.loads\<close>
  rejects, the text never makes the call fail: the call succeeds exactly when the booking
  file is written, and then the record returned, which is also the record stored, has
  \<open>booking_details\<close> equal to \<open>{"description": text}\<close>.
\<close>

theorem create_booking_wraps_plain_text:
  assumes "str_lower bt = ''flight'' \<or> str_lower bt = ''hotel''"
    and "json_loads env s = None"
  shows "(is_success (fst (create_booking env fs bt (JStr s) n e))
            \<longleftrightarrow> write_result env = WriteOk) \<and>
         (write_result env = WriteOk \<longrightarrow>
            obj_get (fst (create_booking env fs bt (JStr s) n e)) ''booking_details''
              = Some (JObj [(''description'', JStr s)]) \<and>
            snd (create_booking env fs bt (JStr s) n e) (booking_file env bt)
              = Some (Written (fst (create_booking env fs bt (JStr s) n e))))"
proof -
  have p: "parse_details env (JStr s) = JObj [(''description'', JStr s)]"
    using assms(2) by (simp add: parse_details_def)
  have iff: "is_success (fst (create_booking env fs bt (JStr s) n e))
               \<longleftrightarrow> write_result env = WriteOk"
    using assms(1) by (simp add: create_booking_success_iff)
  have rest: "obj_get (fst (create_booking env fs bt (JStr s) n e)) ''booking_details''
              = Some (JObj [(''description'', JStr s)]) \<and>
            snd (create_booking env fs bt (JStr s) n e) (booking_file env bt)
              = Some (Written (fst (create_booking env fs bt (JStr s) n e)))"
    if ok: "write_result env = WriteOk"
  proof -
    have "create_booking env fs bt (JStr s) n e =
       (booking_record env bt (JStr s) n e,
        fs(booking_file env bt \<mapsto> Written (booking_record env bt (JStr s) n e)))"
      using create_booking_valid [OF assms(1), of env fs "JStr s" n e] ok by simp
    then show ?thesis
      using p by (simp add: booking_record_def)
  qed
  show ?thesis
    using iff rest by blast
qed

theorem create_booking_wraps_plain_text_witness:
  "(str_lower ''hotel'' = ''flight'' \<or> str_lower ''hotel'' = ''hotel'') \<and>
   json_loads example_env ''Grand Plaza, 2 nights'' = None \<and>
   write_result example_env = WriteOk \<and>
   is_success (fst (create_booking example_env Map.empty ''hotel''
     (JStr ''Grand Plaza, 2 nights'') ''A. Traveler'' ''a@x.com'')) \<and>
   obj_get (fst (create_booking example_env Map.empty ''hotel''
     (JStr ''Grand Plaza, 2 nights'') ''A. Traveler'' ''a@x.com'')) ''booking_details''
     = Some (JObj [(''description'', JStr ''Grand Plaza, 2 nights'')])"
proof -
  have a: "str_lower ''hotel'' = ''flight'' \<or> str_lower ''hotel'' = ''hotel''"
    by (simp add: lower_hotel)
  have b: "json_loads example_env ''Grand Plaza, 2 nights'' = None"
    by (simp add: example_env_def)
  have c: "write_result example_env = WriteOk"
    by (simp add: example_env_def)
  show ?thesis
    using a b c
      create_booking_wraps_plain_text [OF a b, of Map.empty "''A. Traveler''" "''a@x.com''"]
    by simp
qed

section \<open>Properties of the sessions\<close>

lemma delete_present:
  "ss sid = Some s \<Longrightarrow>
   delete_session ss sid =
     (Inr (JObj [(''message'', JStr ''Session deleted successfully''),
                 (''session_id'', JStr sid)]),
      ss(sid := None))"
  by (simp add: delete_session_def)

lemma delete_absent:
  "ss sid = None \<Longrightarrow>
   delete_session ss sid = (Inl (HTTPException 404 ''Session not found''), ss)"
  by (simp add: delete_session_def)

text \<open>
  C9. Deleting a session that exists succeeds and removes it from the table; deleting one
  that does not exist fails with the 404 \<open>Session not found\<close> error and changes nothing. So
  the second of two deletions in a row fails with that error.
\<close>

theorem delete_session_once_then_not_found:
  "(ss sid \<noteq> None \<longrightarrow>
      (\<exists>body. fst (delete_session ss sid) = Inr body) \<and>
      snd (delete_session ss sid) = ss(sid := None) \<and>
      fst (delete_session (snd (delete_session ss sid)) sid)
        = Inl (HTTPException 404 ''Session not found'')) \<and>
   (ss sid = None \<longrightarrow>
      delete_session ss sid = (Inl (HTTPException 404 ''Session not found''), ss))"
  by (auto simp: delete_present delete_absent)

theorem delete_session_once_then_not_found_witness:
  "example_sessions ''s1'' \<noteq> None \<and>
   snd (delete_session example_sessions ''s1'') ''s1'' = None \<and>
   fst (delete_session (snd (delete_session example_sessions ''s1'')) ''s1'')
     = Inl (HTTPException 404 ''Session not found'') \<and>
   example_sessions ''s2'' = None \<and>
   fst (delete_session example_sessions ''s2'') = Inl (HTTPException 404 ''Session not found'')"
proof -
  have a: "example_sessions ''s1'' \<noteq> None" and b: "example_sessions ''s2'' = None"
    by (simp_all add: example_sessions_def)
  show ?thesis
    using a b
      delete_session_once_then_not_found [of example_sessions "''s1''"]
      delete_session_once_then_not_found [of example_sessions "''s2''"]
    by (metis fst_conv fun_upd_same)
qed

subsection \<open>One chat turn\<close>

lemma chat_raises:
  assumes "agent_invoke w (req_message rq) (memory_of ss (turn_session_id w rq)) = Inl x"
  shows "fst (chat w ss rq)
           = Inl (HTTPException 500 (''Error processing request: '' @ str_exn x))"
    and "memory_of (snd (chat w ss rq)) sid = memory_of ss sid"
    and "dom (snd (chat w ss rq)) = insert (turn_session_id w rq) (dom ss)"
  using assms
  by (auto simp: chat_def Let_def memory_of_def new_session_def create_memory_for_session_def
      split: option.splits)

lemma chat_returns:
  assumes "agent_invoke w (req_message rq) (memory_of ss (turn_session_id w rq)) = Inr out"
  shows "fst (chat w ss rq) = Inr \<lparr>response = out, resp_session_id = turn_session_id w rq\<rparr>"
    and "memory_of (snd (chat w ss rq)) sid =
           (if sid = turn_session_id w rq
            then memory_of ss sid @ [HumanMessage (req_message rq), AIMessage out]
            else memory_of ss sid)"
  using assms
  by (auto simp: chat_def Let_def memory_of_def new_session_def create_memory_for_session_def
        add_message_def split: option.splits)

lemma create_session_empty:
  "memory_of (snd (create_session w ss)) (fst (create_session w ss)) = []"
  by (simp add: create_session_def memory_of_def new_session_def create_memory_for_session_def)

text \<open>
  C7. When the agent run raises, the caller gets one error, the 500 response built from the
  exception, and every session holds the messages it held before (a session first named in
  this turn stays in the table, with no messages). When the run returns, the
  user's message and then the assistant's reply are appended to the session of the turn and
  to no other. So a turn appends both messages or neither.
\<close>

theorem chat_turn_appends_both_or_neither:
  "(\<forall>x. agent_invoke w (req_message rq) (memory_of ss (turn_session_id w rq)) = Inl x \<longrightarrow>
      fst (chat w ss rq)
        = Inl (HTTPException 500 (''Error processing request: '' @ str_exn x)) \<and>
      (\<forall>sid. memory_of (snd (chat w ss rq)) sid = memory_of ss sid) \<and>
      dom (snd (chat w ss rq)) = insert (turn_session_id w rq) (dom ss)) \<and>
   (\<forall>out. agent_invoke w (req_message rq) (memory_of ss (turn_session_id w rq)) = Inr out \<longrightarrow>
      fst (chat w ss rq) = Inr \<lparr>response = out, resp_session_id = turn_session_id w rq\<rparr> \<and>
      memory_of (snd (chat w ss rq)) (turn_session_id w rq)
        = memory_of ss (turn_session_id w rq)
            @ [HumanMessage (req_message rq), AIMessage out] \<and>
      (\<forall>sid. sid \<noteq> turn_session_id w rq \<longrightarrow>
         memory_of (snd (chat w ss rq)) sid = memory_of ss sid))"
  using chat_raises [of w rq ss] chat_returns [of w rq ss]
  by simp

theorem chat_turn_appends_both_or_neither_witness:
  "agent_invoke failing_world ''again''
     (memory_of example_history
        (turn_session_id failing_world
           \<lparr>req_message = ''again'', req_session_id = Some ''u1''\<rparr>))
     = Inl (RequestException, ''Connection error.'') \<and>
   fst (chat failing_world example_history
       \<lparr>req_message = ''again'', req_session_id = Some ''u1''\<rparr>)
     = Inl (HTTPException 500 ''Error processing request: Connection error.'') \<and>
   memory_of (snd (chat failing_world example_history
       \<lparr>req_message = ''again'', req_session_id = Some ''u1''\<rparr>)) ''u1''
     = [HumanMessage ''hi'', AIMessage ''Re: hi''] \<and>
   agent_invoke echo_world ''bye''
     (memory_of example_history
        (turn_session_id echo_world \<lparr>req_message = ''bye'', req_session_id = Some ''u1''\<rparr>))
     = Inr ''Re: bye'' \<and>
   memory_of (snd (chat echo_world example_history
       \<lparr>req_message = ''bye'', req_session_id = Some ''u1''\<rparr>)) ''u1''
     = [HumanMessage ''hi'', AIMessage ''Re: hi'', HumanMessage ''bye'', AIMessage ''Re: bye'']"
proof -
  have a: "agent_invoke failing_world ''again''
     (memory_of example_history
        (turn_session_id failing_world
           \<lparr>req_message = ''again'', req_session_id = Some ''u1''\<rparr>))
     = Inl (RequestException, ''Connection error.'')"
    by (simp add: failing_world_def)
  have b: "agent_invoke echo_world ''bye''
     (memory_of example_history
        (turn_session_id echo_world \<lparr>req_message = ''bye'', req_session_id = Some ''u1''\<rparr>))
     = Inr ''Re: bye''"
    by (simp add: echo_world_def)
  have m: "memory_of example_history ''u1'' = [HumanMessage ''hi'', AIMessage ''Re: hi'']"
    by (simp add: memory_of_def example_history_def)
  have t:
    "turn_session_id failing_world \<lparr>req_message = ''again'', req_session_id = Some ''u1''\<rparr>
       = ''u1''"
    "turn_session_id echo_world \<lparr>req_message = ''bye'', req_session_id = Some ''u1''\<rparr>
       = ''u1''"
    by (simp_all add: turn_session_id_def)
  show ?thesis
    using a b
      chat_turn_appends_both_or_neither
        [of failing_world "\<lparr>req_message = ''again'', req_session_id = Some ''u1''\<rparr>"
          example_history]
      chat_turn_appends_both_or_neither
        [of echo_world "\<lparr>req_message = ''bye'', req_session_id = Some ''u1''\<rparr>"
          example_history]
    by (simp add: m t str_exn_def)
qed

subsection \<open>A sequence of chat turns\<close>

lemma chat_turns_memory:
  "memory_of (chat_turns ss ts) sid =
     memory_of ss sid @ concat (map exchange (successful_turns sid ss ts))"
proof (induction ts arbitrary: ss)
  case Nil
  then show ?case by simp
next
  case (Cons t ts)
  obtain w rq where t: "t = (w, rq)" by (cases t)
  show ?case
  proof (cases "agent_invoke w (req_message rq) (memory_of ss (turn_session_id w rq))")
    case (Inl x)
    have "successful_turns sid ss (t # ts) = successful_turns sid (snd (chat w ss rq)) ts"
      using chat_raises(1) [OF Inl] by (cases "chat w ss rq") (simp add: t)
    then show ?thesis
      using Cons.IH [of "snd (chat w ss rq)"] chat_raises(2) [OF Inl] by (simp add: t)
  next
    case (Inr out)
    have "successful_turns sid ss (t # ts) =
            (if turn_session_id w rq = sid then [(req_message rq, out)] else [])
              @ successful_turns sid (snd (chat w ss rq)) ts"
      using chat_returns(1) [OF Inr] by (cases "chat w ss rq") (simp add: t)
    then show ?thesis
      using Cons.IH [of "snd (chat w ss rq)"] chat_returns(2) [OF Inr, of sid]
      by (auto simp: t exchange_def)
  qed
qed

lemma length_concat_exchange: "length (concat (map exchange ps)) = 2 * length ps"
  by (induction ps) (simp_all add: exchange_def)

lemma example_successful_turns:
  "successful_turns ''u1'' Map.empty example_turns
     = [(''hi'', ''Re: hi''), (''bye'', ''Re: bye'')]"
  by (simp add: example_turns_def echo_world_def failing_world_def chat_def Let_def
        turn_session_id_def new_session_def create_memory_for_session_def add_message_def)

text \<open>
  C2. Over any sequence of chat requests, to any sessions and whether they succeed or fail,
  the messages of a session are those it held at the start followed by one pair, the user's
  message then the assistant's reply, for each successful turn on that session, in order,
  and nothing else. A session is created empty, so after \<open>N\<close> successful turns it holds
  exactly \<open>2N\<close> messages.
\<close>

theorem memory_is_two_messages_per_successful_turn:
  "memory_of (chat_turns ss ts) sid
     = memory_of ss sid @ concat (map exchange (successful_turns sid ss ts)) \<and>
   memory_of (snd (create_session w ss)) (fst (create_session w ss)) = [] \<and>
   (memory_of ss sid = [] \<longrightarrow>
      memory_of (chat_turns ss ts) sid = concat (map exchange (successful_turns sid ss ts)) \<and>
      length (memory_of (chat_turns ss ts) sid) = 2 * length (successful_turns sid ss ts))"
  by (simp add: chat_turns_memory length_concat_exchange create_session_empty)

theorem memory_is_two_messages_per_successful_turn_witness:
  "memory_of Map.empty ''u1'' = [] \<and>
   length (successful_turns ''u1'' Map.empty example_turns) = 2 \<and>
   memory_of (chat_turns Map.empty example_turns) ''u1''
     = [HumanMessage ''hi'', AIMessage ''Re: hi'', HumanMessage ''bye'', AIMessage ''Re: bye''] \<and>
   length (memory_of (chat_turns Map.empty example_turns) ''u1'') = 4"
proof -
  have a: "memory_of Map.empty ''u1'' = []"
    by (simp add: memory_of_def)
  show ?thesis
    using a
      memory_is_two_messages_per_successful_turn [of Map.empty example_turns "''u1''"]
    by (simp add: example_successful_turns exchange_def)
qed

section \<open>Properties of the search tools\<close>

subsection \<open>The outcomes of a search\<close>

lemma bind_exn_InrE:
  assumes "bind_exn m f = Inr r"
  obtains v where "m = Inr v" and "f v = Inr r"
  using assms by (cases m) (simp_all add: bind_exn_def)

lemma flight_entry_keys:
  "flight_entry flight = Inr entry \<Longrightarrow>
   obj_keys entry = [''price'', ''airline'', ''departure_time'', ''arrival_time'', ''duration'',
     ''layovers'']"
  unfolding flight_entry_def by (elim bind_exn_InrE) auto

lemma collect_flights_all:
  assumes "collect_flights items acc = Inr fs"
    and "list_all P acc"
    and step: "\<And>item entry. flight_entry item = Inr entry \<Longrightarrow> P entry"
  shows "list_all P fs"
  using assms(1,2)
proof (induction items arbitrary: acc)
  case Nil
  then show ?case by simp
next
  case (Cons item items)
  show ?case
  proof (cases "flight_entry item")
    case (Inl e)
    with Cons.prems(1) show ?thesis by simp
  next
    case (Inr entry)
    then have "collect_flights items (acc @ [entry]) = Inr fs"
      using Cons.prems(1) by simp
    moreover have "list_all P (acc @ [entry])"
      using Cons.prems(2) step [OF Inr] by simp
    ultimately show ?thesis
      by (rule Cons.IH)
  qed
qed

lemma best_flights_keys:
  assumes "best_flights data = Inr fs"
  shows "list_all (\<lambda>e. obj_keys e = [''price'', ''airline'', ''departure_time'',
     ''arrival_time'', ''duration'', ''layovers'']) fs"
proof -
  from assms obtain present where
    p: "(if present
         then bind_exn (py_item data ''best_flights'') (\<lambda>best.
              bind_exn (py_slice_items best 5) (\<lambda>items. collect_flights items []))
         else Inr []) = Inr fs"
    unfolding best_flights_def by (rule bind_exn_InrE)
  show ?thesis
  proof (cases present)
    case True
    with p obtain best where
      "bind_exn (py_slice_items best 5) (\<lambda>items. collect_flights items []) = Inr fs"
      by simp (erule bind_exn_InrE)
    then obtain items where "collect_flights items [] = Inr fs"
      by (rule bind_exn_InrE)
    then show ?thesis
      by (rule collect_flights_all) (simp_all add: flight_entry_keys)
  next
    case False
    with p show ?thesis by simp
  qed
qed

lemma search_flights_body_cases:
  assumes "search_flights_body w org dst dd rd = Inr r"
  shows "r = get_mock_flight_data org dst dd rd \<or>
         (\<exists>fs. r = flight_result org dst dd rd fs \<and>
            list_all (\<lambda>e. obj_keys e = [''price'', ''airline'', ''departure_time'',
               ''arrival_time'', ''duration'', ''layovers'']) fs)"
proof (cases "falsy (serpapi_key w)")
  case True
  then show ?thesis
    using assms by (auto simp: search_flights_body_def falsy_def)
next
  case False
  then obtain k where k: "serpapi_key w = Some k" "k \<noteq> []"
    by (auto simp: falsy_def)
  from assms obtain resp :: http_response where
    resp: "(if status_code resp = 200
            then bind_exn (json_body resp) (\<lambda>data. bind_exn (best_flights data) (\<lambda>flights.
                   Inr (flight_result org dst dd rd flights)))
            else Inr (get_mock_flight_data org dst dd rd)) = Inr r"
    unfolding search_flights_body_def by (simp add: k) (erule bind_exn_InrE)
  show ?thesis
  proof (cases "status_code resp = 200")
    case True
    with resp obtain data where
      "bind_exn (best_flights data) (\<lambda>flights. Inr (flight_result org dst dd rd flights)) = Inr r"
      by simp (erule bind_exn_InrE)
    then obtain fs where "best_flights data = Inr fs" and "r = flight_result org dst dd rd fs"
      by (rule bind_exn_InrE) simp
    then show ?thesis
      using best_flights_keys by blast
  next
    case False
    with resp show ?thesis by simp
  qed
qed

lemma search_flights_cases:
  "search_flights w org dst dd rd = get_mock_flight_data org dst dd rd \<or>
   (\<exists>e. search_flights_body w org dst dd rd = Inl e \<and>
        search_flights w org dst dd rd = flight_failed_result e) \<or>
   (\<exists>fs. search_flights w org dst dd rd = flight_result org dst dd rd fs \<and>
      list_all (\<lambda>e. obj_keys e = [''price'', ''airline'', ''departure_time'',
         ''arrival_time'', ''duration'', ''layovers'']) fs)"
proof (cases "search_flights_body w org dst dd rd")
  case (Inl e)
  then show ?thesis by (simp add: search_flights_def)
next
  case (Inr r)
  then have "search_flights w org dst dd rd = r"
    by (simp add: search_flights_def)
  then show ?thesis
    using search_flights_body_cases [OF Inr] by blast
qed

lemma hotel_entry_keys:
  "hotel_entry city n hotel = Inr entry \<Longrightarrow>
   obj_keys entry = [''name'', ''hotel_id'', ''address'', ''rating'', ''price_per_night'',
     ''amenities'']"
  unfolding hotel_entry_def by (elim bind_exn_InrE) auto

lemma collect_hotels_all:
  assumes "collect_hotels city items acc = Inr hs"
    and "list_all P acc"
    and step: "\<And>n item entry. hotel_entry city n item = Inr entry \<Longrightarrow> P entry"
  shows "list_all P hs"
  using assms(1,2)
proof (induction items arbitrary: acc)
  case Nil
  then show ?case by simp
next
  case (Cons item items)
  show ?case
  proof (cases "hotel_entry city (length acc) item")
    case (Inl e)
    with Cons.prems(1) show ?thesis by simp
  next
    case (Inr entry)
    then have "collect_hotels city items (acc @ [entry]) = Inr hs"
      using Cons.prems(1) by simp
    moreover have "list_all P (acc @ [entry])"
      using Cons.prems(2) step [OF Inr] by simp
    ultimately show ?thesis
      by (rule Cons.IH)
  qed
qed

lemma listed_hotels_keys:
  assumes "listed_hotels city mr data = Inr hs"
  shows "list_all (\<lambda>e. obj_keys e = [''name'', ''hotel_id'', ''address'', ''rating'',
     ''price_per_night'', ''amenities'']) hs"
proof -
  from assms obtain listing where
    "bind_exn (py_slice_items listing mr) (\<lambda>items. collect_hotels city items []) = Inr hs"
    unfolding listed_hotels_def by (rule bind_exn_InrE)
  then obtain items where "collect_hotels city items [] = Inr hs"
    by (rule bind_exn_InrE)
  then show ?thesis
    by (rule collect_hotels_all) (simp_all add: hotel_entry_keys)
qed

lemma search_hotels_body_cases:
  assumes "search_hotels_body w city ci co g mr = Inr r"
  shows "r = get_mock_hotel_data city ci co g mr \<or>
         (\<exists>hs. r = hotel_result city ci co g hs \<and>
            list_all (\<lambda>e. obj_keys e = [''name'', ''hotel_id'', ''address'', ''rating'',
               ''price_per_night'', ''amenities'']) hs)"
proof (cases "falsy (amadeus_api_key w) \<or> falsy (amadeus_api_secret w)")
  case True
  then show ?thesis
    using assms by (auto simp: search_hotels_body_def)
next
  case False
  from assms obtain tr :: http_response where
    tr: "(if status_code tr \<noteq> 200
          then Inr (get_mock_hotel_data city ci co g mr)
          else bind_exn (json_body tr) (\<lambda>token.
               bind_exn (py_item token ''access_token'') (\<lambda>access_token.
               bind_exn (hotels_get w access_token (hotel_params city)) (\<lambda>response.
                 if status_code response = 200
                 then bind_exn (json_body response) (\<lambda>data.
                      bind_exn (listed_hotels city mr data) (\<lambda>hotels.
                        Inr (hotel_result city ci co g hotels)))
                 else Inr (get_mock_hotel_data city ci co g mr))))) = Inr r"
    unfolding search_hotels_body_def using False by simp (erule bind_exn_InrE)
  show ?thesis
  proof (cases "status_code tr = 200")
    case False
    with tr show ?thesis by simp
  next
    case True
    with tr obtain token where
      "bind_exn (py_item token ''access_token'') (\<lambda>access_token.
         bind_exn (hotels_get w access_token (hotel_params city)) (\<lambda>response.
           if status_code response = 200
           then bind_exn (json_body response) (\<lambda>data.
                bind_exn (listed_hotels city mr data) (\<lambda>hotels.
                  Inr (hotel_result city ci co g hotels)))
           else Inr (get_mock_hotel_data city ci co g mr))) = Inr r"
      by simp (erule bind_exn_InrE)
    then obtain access_token where
      "bind_exn (hotels_get w access_token (hotel_params city)) (\<lambda>response.
           if status_code response = 200
           then bind_exn (json_body response) (\<lambda>data.
                bind_exn (listed_hotels city mr data) (\<lambda>hotels.
                  Inr (hotel_result city ci co g hotels)))
           else Inr (get_mock_hotel_data city ci co g mr)) = Inr r"
      by (rule bind_exn_InrE)
    then obtain resp :: http_response where
      resp: "(if status_code resp = 200
              then bind_exn (json_body resp) (\<lambda>data.
                   bind_exn (listed_hotels city mr data) (\<lambda>hotels.
                     Inr (hotel_result city ci co g hotels)))
              else Inr (get_mock_hotel_data city ci co g mr)) = Inr r"
      by (rule bind_exn_InrE)
    show ?thesis
    proof (cases "status_code resp = 200")
      case True
      with resp obtain data where
        "bind_exn (listed_hotels city mr data) (\<lambda>hotels.
           Inr (hotel_result city ci co g hotels)) = Inr r"
        by simp (erule bind_exn_InrE)
      then obtain hs where "listed_hotels city mr data = Inr hs"
        and "r = hotel_result city ci co g hs"
        by (rule bind_exn_InrE) simp
      then show ?thesis
        using listed_hotels_keys by blast
    next
      case False
      with resp show ?thesis by simp
    qed
  qed
qed

lemma search_hotels_cases:
  "search_hotels w city ci co g mr = get_mock_hotel_data city ci co g mr \<or>
   (\<exists>e. search_hotels_body w city ci co g mr = Inl e \<and>
        search_hotels w city ci co g mr = hotel_failed_result e) \<or>
   (\<exists>hs. search_hotels w city ci co g mr = hotel_result city ci co g hs \<and>
      list_all (\<lambda>e. obj_keys e = [''name'', ''hotel_id'', ''address'', ''rating'',
         ''price_per_night'', ''amenities'']) hs)"
proof (cases "search_hotels_body w city ci co g mr")
  case (Inl e)
  then show ?thesis by (simp add: search_hotels_def)
next
  case (Inr r)
  then have "search_hotels w city ci co g mr = r"
    by (simp add: search_hotels_def)
  then show ?thesis
    using search_hotels_body_cases [OF Inr] by blast
qed

lemma mock_flight_fields:
  "is_success (get_mock_flight_data org dst dd rd)"
  "obj_get (get_mock_flight_data org dst dd rd) ''flights'' = Some (JArr mock_flights)"
  "obj_get (get_mock_flight_data org dst dd rd) ''count'' = Some (JInt (int (length mock_flights)))"
  "obj_get (get_mock_flight_data org dst dd rd) ''note''
     = Some (JStr ''Sample data shown. Configure SERPAPI_KEY for live data.'')"
  "obj_get (get_mock_flight_data org dst dd rd) ''source'' = None"
  "obj_keys (get_mock_flight_data org dst dd rd)
     = [''success'', ''origin'', ''destination'', ''departure_date'', ''return_date'',
        ''flights'', ''count'', ''note'']"
  by (simp_all add: get_mock_flight_data_def is_success_def)

lemma flight_result_fields:
  "is_success (flight_result org dst dd rd fs)"
  "obj_get (flight_result org dst dd rd fs) ''flights'' = Some (JArr fs)"
  "obj_get (flight_result org dst dd rd fs) ''count'' = Some (JInt (int (length fs)))"
  "obj_get (flight_result org dst dd rd fs) ''note'' = None"
  "obj_get (flight_result org dst dd rd fs) ''source'' = None"
  "obj_keys (flight_result org dst dd rd fs)
     = [''success'', ''origin'', ''destination'', ''departure_date'', ''return_date'',
        ''flights'', ''count'']"
  by (simp_all add: flight_result_def is_success_def)

lemma flight_failed_fields:
  "is_failure (flight_failed_result e)"
  "\<not> is_success (flight_failed_result e)"
  "obj_get (flight_failed_result e) ''flights'' = None"
  "obj_get (flight_failed_result e) ''count'' = None"
  by (simp_all add: flight_failed_result_def is_success_def is_failure_def)

lemma mock_flights_keys:
  "list_all (\<lambda>e. obj_keys e = [''price'', ''airline'', ''departure_time'', ''arrival_time'',
     ''duration'', ''layovers'']) mock_flights"
  by (simp add: mock_flights_def)

lemma mock_hotel_fields:
  "is_success (get_mock_hotel_data city ci co g mr)"
  "obj_get (get_mock_hotel_data city ci co g mr) ''hotels''
     = Some (JArr (py_take mr (mock_hotels city)))"
  "obj_get (get_mock_hotel_data city ci co g mr) ''count''
     = Some (JInt (min (int (length (mock_hotels city))) mr))"
  "obj_get (get_mock_hotel_data city ci co g mr) ''note''
     = Some (JStr ''Sample data shown. Configure AMADEUS_API_KEY for live data.'')"
  "obj_get (get_mock_hotel_data city ci co g mr) ''source'' = None"
  "obj_keys (get_mock_hotel_data city ci co g mr)
     = [''success'', ''city'', ''check_in'', ''check_out'', ''guests'', ''hotels'', ''count'',
        ''note'']"
  by (simp_all add: get_mock_hotel_data_def is_success_def)

lemma hotel_result_fields:
  "is_success (hotel_result city ci co g hs)"
  "obj_get (hotel_result city ci co g hs) ''hotels'' = Some (JArr hs)"
  "obj_get (hotel_result city ci co g hs) ''count'' = Some (JInt (int (length hs)))"
  "obj_get (hotel_result city ci co g hs) ''note'' = None"
  "obj_get (hotel_result city ci co g hs) ''source'' = None"
  "obj_keys (hotel_result city ci co g hs)
     = [''success'', ''city'', ''check_in'', ''check_out'', ''guests'', ''hotels'', ''count'']"
  by (simp_all add: hotel_result_def is_success_def)

lemma hotel_failed_fields:
  "is_failure (hotel_failed_result e)"
  "\<not> is_success (hotel_failed_result e)"
  "obj_get (hotel_failed_result e) ''hotels'' = None"
  "obj_get (hotel_failed_result e) ''count'' = None"
  by (simp_all add: hotel_failed_result_def is_success_def is_failure_def)

lemma mock_hotels_keys:
  "list_all (\<lambda>e. obj_keys e = [''name'', ''hotel_id'', ''address'', ''rating'',
     ''price_per_night'', ''amenities'']) (mock_hotels city)"
  by (simp add: mock_hotels_def)

lemma list_all_py_take: "list_all P xs \<Longrightarrow> list_all P (py_take n xs)"
  by (auto simp: py_take_def list_all_iff dest: in_set_takeD)

lemma length_py_take_nonneg:
  "0 \<le> n \<Longrightarrow> int (length (py_take n xs)) = min (int (length xs)) n"
  by (simp add: py_take_def)

lemma length_mock_hotels: "length (mock_hotels city) = 5"
  by (simp add: mock_hotels_def)

lemma search_flights_no_key:
  "falsy (serpapi_key w) \<Longrightarrow>
   search_flights w org dst dd rd = get_mock_flight_data org dst dd rd"
  by (auto simp: search_flights_def search_flights_body_def falsy_def)

lemma search_flights_bad_status:
  "serpapi_key w = Some k \<Longrightarrow> k \<noteq> [] \<Longrightarrow>
   serpapi_get w (flight_params k org dst dd rd) = Inr resp \<Longrightarrow> status_code resp \<noteq> 200 \<Longrightarrow>
   search_flights w org dst dd rd = get_mock_flight_data org dst dd rd"
  by (simp add: search_flights_def search_flights_body_def bind_exn_def)

lemma search_hotels_no_key:
  "falsy (amadeus_api_key w) \<or> falsy (amadeus_api_secret w) \<Longrightarrow>
   search_hotels w city ci co g mr = get_mock_hotel_data city ci co g mr"
  by (auto simp: search_hotels_def search_hotels_body_def)

lemma search_hotels_bad_token_status:
  "\<not> falsy (amadeus_api_key w) \<Longrightarrow> \<not> falsy (amadeus_api_secret w) \<Longrightarrow>
   token_post w (token_data (case amadeus_api_key w of None \<Rightarrow> [] | Some k \<Rightarrow> k)
     (case amadeus_api_secret w of None \<Rightarrow> [] | Some k \<Rightarrow> k)) = Inr tr \<Longrightarrow>
   status_code tr \<noteq> 200 \<Longrightarrow>
   search_hotels w city ci co g mr = get_mock_hotel_data city ci co g mr"
  by (simp add: search_hotels_def search_hotels_body_def bind_exn_def)

lemma live_flight_shape:
  assumes "is_success (search_flights w org dst dd rd)"
    and "obj_get (search_flights w org dst dd rd) ''note'' = None"
  shows "obj_keys (search_flights w org dst dd rd) @ [''note'']
           = obj_keys (get_mock_flight_data org' dst' dd' rd') \<and>
         list_all (\<lambda>e. obj_keys e = [''price'', ''airline'', ''departure_time'',
           ''arrival_time'', ''duration'', ''layovers''])
           (array_items (search_flights w org dst dd rd) ''flights'')"
  using search_flights_cases [of w org dst dd rd] assms
  by (elim disjE exE conjE)
    (simp_all add: mock_flight_fields flight_result_fields flight_failed_fields array_items_def)

lemma live_hotel_shape:
  assumes "is_success (search_hotels w city ci co g mr)"
    and "obj_get (search_hotels w city ci co g mr) ''note'' = None"
  shows "obj_keys (search_hotels w city ci co g mr) @ [''note'']
           = obj_keys (get_mock_hotel_data city' ci' co' g' mr') \<and>
         list_all (\<lambda>e. obj_keys e = [''name'', ''hotel_id'', ''address'', ''rating'',
           ''price_per_night'', ''amenities''])
           (array_items (search_hotels w city ci co g mr) ''hotels'')"
  using search_hotels_cases [of w city ci co g mr] assms
  by (elim disjE exE conjE)
    (simp_all add: mock_hotel_fields hotel_result_fields hotel_failed_fields array_items_def)

subsection \<open>The example surroundings\<close>

lemma live_flights_value:
  "search_flights live_flights ''JFK'' ''CDG'' ''2025-06-01'' None =
     flight_result ''JFK'' ''CDG'' ''2025-06-01'' None
       [JObj [(''price'', JInt 512), (''airline'', JStr ''Air France''),
              (''departure_time'', JStr ''N/A''), (''arrival_time'', JStr ''N/A''),
              (''duration'', JInt 440), (''layovers'', JInt 0)]]"
  by (simp add: search_flights_def search_flights_body_def live_flights_def
        live_flights_answer_def bind_exn_def best_flights_def flight_entry_def py_take_def)

lemma live_hotels_value:
  "search_hotels live_hotels ''Paris'' ''2025-06-01'' ''2025-06-03'' 2 5 =
     hotel_result ''Paris'' ''2025-06-01'' ''2025-06-03'' 2
       [JObj [(''name'', JStr ''Hotel du Nord''), (''hotel_id'', JStr ''HN01''),
              (''address'', JStr ''Paris''), (''rating'', JStr ''4.5''),
              (''price_per_night'', JStr ''$100''),
              (''amenities'', JArr [JStr ''WiFi'', JStr ''Pool'', JStr ''Gym'',
                 JStr ''Restaurant''])],
        JObj [(''name'', JStr ''Hotel Lutetia''), (''hotel_id'', JStr ''N/A''),
              (''address'', JStr ''Paris''), (''rating'', JStr ''4.5''),
              (''price_per_night'', JStr ''$125''),
              (''amenities'', JArr [JStr ''WiFi'', JStr ''Pool'', JStr ''Gym'',
                 JStr ''Restaurant''])]]"
  by (simp add: search_hotels_def search_hotels_body_def live_hotels_def
        live_hotels_answer_def bind_exn_def listed_hotels_def hotel_entry_def py_take_def
        falsy_def digit_char_def char_of_def bit_Suc_0_iff)

lemma down_flights_value:
  "search_flights_body down_flights ''JFK'' ''CDG'' ''2025-06-01'' None
     = Inl (RequestException, ''Connection refused'')"
  by (simp add: search_flights_body_def down_flights_def bind_exn_def)

lemma down_hotels_value:
  "search_hotels_body down_hotels ''Paris'' ''2025-06-01'' ''2025-06-03'' 2 5
     = Inl (RequestException, ''Connection refused'')"
  by (simp add: search_hotels_body_def down_hotels_def bind_exn_def falsy_def)

lemma search_hotels_bad_search_status:
  assumes "\<not> falsy (amadeus_api_key w)" and "\<not> falsy (amadeus_api_secret w)"
    and "token_post w (token_data (case amadeus_api_key w of None \<Rightarrow> [] | Some k \<Rightarrow> k)
     (case amadeus_api_secret w of None \<Rightarrow> [] | Some k \<Rightarrow> k)) = Inr tr"
    and "status_code tr = 200" and "json_body tr = Inr token"
    and "py_item token ''access_token'' = Inr access_token"
    and "hotels_get w access_token (hotel_params city) = Inr resp"
    and "status_code resp \<noteq> 200"
  shows "search_hotels w city ci co g mr = get_mock_hotel_data city ci co g mr"
  using assms by (simp add: search_hotels_def search_hotels_body_def bind_exn_def)

lemma read_only_body:
  "fst (create_booking_body read_only_env Map.empty ''hotel'' (JStr ''Grand Plaza, 2 nights'')
     ''A. Traveler'' ''a@x.com'') = Inl (OSError, ''[Errno 30] Read-only file system'')"
  by (simp add: create_booking_body_def read_only_env_def lower_hotel Let_def)

subsection \<open>The claims on the tools\<close>

text \<open>
  C1. Each of the three tools returns a value on every input and in every surrounding: a
  dictionary for \<^verbatim>\<open>json.dumps\<close> whose \<open>success\<close> field is \<open>True\<close> or \<open>False\<close>. Whatever
  the body of its \<^verbatim>\<open>try\<close> block raises is turned into the tool's \<open>success: false\<close>
  result.
\<close>

theorem tools_return_a_result:
  "(is_success (search_flights w org dst dd rd) \<or> is_failure (search_flights w org dst dd rd)) \<and>
   (\<forall>x. search_flights_body w org dst dd rd = Inl x \<longrightarrow>
      search_flights w org dst dd rd = flight_failed_result x \<and>
      is_failure (search_flights w org dst dd rd)) \<and>
   (is_success (search_hotels wh city ci co g mr) \<or> is_failure (search_hotels wh city ci co g mr)) \<and>
   (\<forall>x. search_hotels_body wh city ci co g mr = Inl x \<longrightarrow>
      search_hotels wh city ci co g mr = hotel_failed_result x \<and>
      is_failure (search_hotels wh city ci co g mr)) \<and>
   (is_success (fst (create_booking env fs bt d n e)) \<or>
    is_failure (fst (create_booking env fs bt d n e))) \<and>
   (\<forall>x. fst (create_booking_body env fs bt d n e) = Inl x \<longrightarrow>
      fst (create_booking env fs bt d n e) = booking_failed_result x \<and>
      is_failure (fst (create_booking env fs bt d n e)))"
proof -
  have f1: "is_success (search_flights w org dst dd rd) \<or> is_failure (search_flights w org dst dd rd)"
    using search_flights_cases [of w org dst dd rd]
    by (elim disjE exE conjE)
      (simp_all add: mock_flight_fields flight_result_fields flight_failed_fields)
  have f2: "search_flights w org dst dd rd = flight_failed_result x \<and>
      is_failure (search_flights w org dst dd rd)"
    if "search_flights_body w org dst dd rd = Inl x" for x
    using that by (simp add: search_flights_def flight_failed_fields)
  have h1: "is_success (search_hotels wh city ci co g mr) \<or> is_failure (search_hotels wh city ci co g mr)"
    using search_hotels_cases [of wh city ci co g mr]
    by (elim disjE exE conjE)
      (simp_all add: mock_hotel_fields hotel_result_fields hotel_failed_fields)
  have h2: "search_hotels wh city ci co g mr = hotel_failed_result x \<and>
      is_failure (search_hotels wh city ci co g mr)"
    if "search_hotels_body wh city ci co g mr = Inl x" for x
    using that by (simp add: search_hotels_def hotel_failed_fields)
  have b1: "is_success (fst (create_booking env fs bt d n e)) \<or>
    is_failure (fst (create_booking env fs bt d n e))"
  proof (cases "str_lower bt = ''flight'' \<or> str_lower bt = ''hotel''")
    case True
    then show ?thesis
      by (simp add: create_booking_valid failure_failed success_record
            split: write_outcome.splits)
  next
    case False
    then show ?thesis
      by (simp add: create_booking_invalid failure_invalid)
  qed
  have b2: "fst (create_booking env fs bt d n e) = booking_failed_result x \<and>
      is_failure (fst (create_booking env fs bt d n e))"
    if "fst (create_booking_body env fs bt d n e) = Inl x" for x
    using that
    by (cases "create_booking_body env fs bt d n e") (simp add: create_booking_def failure_failed)
  show ?thesis
    using f1 f2 h1 h2 b1 b2 by blast
qed

theorem tools_return_a_result_witness:
  "search_flights_body down_flights ''JFK'' ''CDG'' ''2025-06-01'' None
     = Inl (RequestException, ''Connection refused'') \<and>
   search_flights down_flights ''JFK'' ''CDG'' ''2025-06-01'' None
     = JObj [(''success'', JBool False),
             (''error'', JStr ''Flight search failed: Connection refused''),
             (''message'', JStr ''Using sample data instead'')] \<and>
   search_hotels_body down_hotels ''Paris'' ''2025-06-01'' ''2025-06-03'' 2 5
     = Inl (RequestException, ''Connection refused'') \<and>
   is_failure (search_hotels down_hotels ''Paris'' ''2025-06-01'' ''2025-06-03'' 2 5) \<and>
   fst (create_booking_body read_only_env Map.empty ''hotel'' (JStr ''Grand Plaza, 2 nights'')
     ''A. Traveler'' ''a@x.com'') = Inl (OSError, ''[Errno 30] Read-only file system'') \<and>
   is_failure (fst (create_booking read_only_env Map.empty ''hotel''
     (JStr ''Grand Plaza, 2 nights'') ''A. Traveler'' ''a@x.com''))"
  using down_flights_value down_hotels_value read_only_body
    tools_return_a_result [of down_flights "''JFK''" "''CDG''" "''2025-06-01''" None
          down_hotels "''Paris''" "''2025-06-01''" "''2025-06-03''" 2 5
          read_only_env Map.empty "''hotel''" "JStr ''Grand Plaza, 2 nights''"
          "''A. Traveler''" "''a@x.com''"]
  by (simp add: flight_failed_result_def str_exn_def hotel_failed_fields failure_failed)

text \<open>
  C10. In every successful result of \<open>search_flights\<close>, live or sample, \<open>count\<close> is the
  number of entries of \<open>flights\<close>; in every successful result of \<open>search_hotels\<close> called
  with \<open>max_results \<ge> 0\<close>, \<open>count\<close> is the number of entries of \<open>hotels\<close>. A result that
  is not successful has neither field.
\<close>

theorem count_is_number_of_entries:
  "(is_success (search_flights w org dst dd rd) \<longrightarrow>
      (\<exists>fs. obj_get (search_flights w org dst dd rd) ''flights'' = Some (JArr fs) \<and>
            obj_get (search_flights w org dst dd rd) ''count'' = Some (JInt (int (length fs))))) \<and>
   (\<not> is_success (search_flights w org dst dd rd) \<longrightarrow>
      obj_get (search_flights w org dst dd rd) ''flights'' = None \<and>
      obj_get (search_flights w org dst dd rd) ''count'' = None) \<and>
   (0 \<le> mr \<and> is_success (search_hotels wh city ci co g mr) \<longrightarrow>
      (\<exists>hs. obj_get (search_hotels wh city ci co g mr) ''hotels'' = Some (JArr hs) \<and>
            obj_get (search_hotels wh city ci co g mr) ''count'' = Some (JInt (int (length hs))))) \<and>
   (\<not> is_success (search_hotels wh city ci co g mr) \<longrightarrow>
      obj_get (search_hotels wh city ci co g mr) ''hotels'' = None \<and>
      obj_get (search_hotels wh city ci co g mr) ''count'' = None)"
proof -
  have flights:
    "(is_success (search_flights w org dst dd rd) \<longrightarrow>
      (\<exists>fs. obj_get (search_flights w org dst dd rd) ''flights'' = Some (JArr fs) \<and>
            obj_get (search_flights w org dst dd rd) ''count'' = Some (JInt (int (length fs))))) \<and>
     (\<not> is_success (search_flights w org dst dd rd) \<longrightarrow>
      obj_get (search_flights w org dst dd rd) ''flights'' = None \<and>
      obj_get (search_flights w org dst dd rd) ''count'' = None)"
    using search_flights_cases [of w org dst dd rd]
    by (elim disjE exE conjE) (simp_all add: mock_flight_fields flight_result_fields flight_failed_fields)
  have hotels:
    "(0 \<le> mr \<and> is_success (search_hotels wh city ci co g mr) \<longrightarrow>
      (\<exists>hs. obj_get (search_hotels wh city ci co g mr) ''hotels'' = Some (JArr hs) \<and>
            obj_get (search_hotels wh city ci co g mr) ''count'' = Some (JInt (int (length hs))))) \<and>
     (\<not> is_success (search_hotels wh city ci co g mr) \<longrightarrow>
      obj_get (search_hotels wh city ci co g mr) ''hotels'' = None \<and>
      obj_get (search_hotels wh city ci co g mr) ''count'' = None)"
    using search_hotels_cases [of wh city ci co g mr]
    by (elim disjE exE conjE)
      (simp_all add: mock_hotel_fields hotel_result_fields hotel_failed_fields
        length_py_take_nonneg)
  show ?thesis
    using flights hotels by blast
qed

theorem count_is_number_of_entries_witness:
  "(0::int) \<le> 2 \<and>
   is_success (search_hotels no_key_hotels ''Paris'' ''2025-06-01'' ''2025-06-03'' 1 2) \<and>
   obj_get (search_hotels no_key_hotels ''Paris'' ''2025-06-01'' ''2025-06-03'' 1 2) ''count''
     = Some (JInt 2) \<and>
   length (array_items (search_hotels no_key_hotels ''Paris'' ''2025-06-01'' ''2025-06-03'' 1 2)
     ''hotels'') = 2 \<and>
   is_success (search_flights live_flights ''JFK'' ''CDG'' ''2025-06-01'' None) \<and>
   obj_get (search_flights live_flights ''JFK'' ''CDG'' ''2025-06-01'' None) ''count''
     = Some (JInt 1) \<and>
   length (array_items (search_flights live_flights ''JFK'' ''CDG'' ''2025-06-01'' None)
     ''flights'') = 1 \<and>
   \<not> is_success (search_flights down_flights ''JFK'' ''CDG'' ''2025-06-01'' None) \<and>
   obj_get (search_flights down_flights ''JFK'' ''CDG'' ''2025-06-01'' None) ''count'' = None \<and>
   \<not> is_success (search_hotels down_hotels ''Paris'' ''2025-06-01'' ''2025-06-03'' 2 5) \<and>
   obj_get (search_hotels down_hotels ''Paris'' ''2025-06-01'' ''2025-06-03'' 2 5) ''count''
     = None"
proof -
  have a: "is_success (search_hotels no_key_hotels ''Paris'' ''2025-06-01'' ''2025-06-03'' 1 2)"
    by (simp add: search_hotels_no_key no_key_hotels_def falsy_def mock_hotel_fields)
  have b: "is_success (search_flights live_flights ''JFK'' ''CDG'' ''2025-06-01'' None)"
    by (simp add: live_flights_value flight_result_fields)
  have c: "\<not> is_success (search_flights down_flights ''JFK'' ''CDG'' ''2025-06-01'' None)"
    by (simp add: search_flights_def down_flights_value flight_failed_fields)
  have d: "obj_get (search_hotels no_key_hotels ''Paris'' ''2025-06-01'' ''2025-06-03'' 1 2)
     ''count'' = Some (JInt 2)"
    by (simp add: search_hotels_no_key no_key_hotels_def falsy_def mock_hotel_fields
          length_mock_hotels)
  have e: "obj_get (search_flights live_flights ''JFK'' ''CDG'' ''2025-06-01'' None) ''count''
     = Some (JInt 1)"
    by (simp add: live_flights_value flight_result_fields)
  have f: "\<not> is_success (search_hotels down_hotels ''Paris'' ''2025-06-01'' ''2025-06-03'' 2 5)"
    by (simp add: search_hotels_def down_hotels_value hotel_failed_fields)
  show ?thesis
    using a b c d e f
      count_is_number_of_entries
        [of live_flights "''JFK''" "''CDG''" "''2025-06-01''" None 2 no_key_hotels
          "''Paris''" "''2025-06-01''" "''2025-06-03''" 1]
      count_is_number_of_entries
        [of down_flights "''JFK''" "''CDG''" "''2025-06-01''" None 5 down_hotels
          "''Paris''" "''2025-06-01''" "''2025-06-03''" 2]
    by (auto simp: array_items_def)
qed

text \<open>
  C4, as stated, fails on the tag: without credentials the result of \<open>search_flights\<close> has
  no \<open>source\<close> field, so none that says \<open>mock\<close>.
\<close>

theorem mock_result_has_no_source_tag:
  "obj_get (search_flights no_key_flights ''JFK'' ''CDG'' ''2025-06-01'' None) ''source''
     \<noteq> Some (JStr ''mock'')"
  by (simp add: search_flights_no_key falsy_def no_key_flights_def mock_flight_fields)

text \<open>
  C4, amended. Without credentials, and when the provider answers with a status other than
  200, each search tool returns its sample result, which depends on the arguments alone.
  The sample result is marked by an advisory \<open>note\<close> string and has no \<open>source\<close> field.
  Its field names are those of a live result followed by \<open>note\<close>, and the entries of both
  have the same field names.
\<close>

theorem mock_fallback_shape:
  "(falsy (serpapi_key w) \<longrightarrow>
      search_flights w org dst dd rd = get_mock_flight_data org dst dd rd) \<and>
   (\<forall>k resp. serpapi_key w = Some k \<and> k \<noteq> [] \<and>
      serpapi_get w (flight_params k org dst dd rd) = Inr resp \<and> status_code resp \<noteq> 200 \<longrightarrow>
      search_flights w org dst dd rd = get_mock_flight_data org dst dd rd) \<and>
   (falsy (amadeus_api_key wh) \<or> falsy (amadeus_api_secret wh) \<longrightarrow>
      search_hotels wh city ci co g mr = get_mock_hotel_data city ci co g mr) \<and>
   (\<forall>tr. \<not> falsy (amadeus_api_key wh) \<and> \<not> falsy (amadeus_api_secret wh) \<and>
      token_post wh (token_data (case amadeus_api_key wh of None \<Rightarrow> [] | Some k \<Rightarrow> k)
        (case amadeus_api_secret wh of None \<Rightarrow> [] | Some k \<Rightarrow> k)) = Inr tr \<and>
      status_code tr \<noteq> 200 \<longrightarrow>
      search_hotels wh city ci co g mr = get_mock_hotel_data city ci co g mr) \<and>
   (\<forall>tr token access_token resp.
      \<not> falsy (amadeus_api_key wh) \<and> \<not> falsy (amadeus_api_secret wh) \<and>
      token_post wh (token_data (case amadeus_api_key wh of None \<Rightarrow> [] | Some k \<Rightarrow> k)
        (case amadeus_api_secret wh of None \<Rightarrow> [] | Some k \<Rightarrow> k)) = Inr tr \<and>
      status_code tr = 200 \<and> json_body tr = Inr token \<and>
      py_item token ''access_token'' = Inr access_token \<and>
      hotels_get wh access_token (hotel_params city) = Inr resp \<and> status_code resp \<noteq> 200 \<longrightarrow>
      search_hotels wh city ci co g mr = get_mock_hotel_data city ci co g mr) \<and>
   obj_get (get_mock_flight_data org dst dd rd) ''note''
     = Some (JStr ''Sample data shown. Configure SERPAPI_KEY for live data.'') \<and>
   obj_get (get_mock_hotel_data city ci co g mr) ''note''
     = Some (JStr ''Sample data shown. Configure AMADEUS_API_KEY for live data.'') \<and>
   obj_get (get_mock_flight_data org dst dd rd) ''source'' = None \<and>
   obj_get (get_mock_hotel_data city ci co g mr) ''source'' = None \<and>
   list_all (\<lambda>e. obj_keys e = [''price'', ''airline'', ''departure_time'', ''arrival_time'',
      ''duration'', ''layovers''])
      (array_items (get_mock_flight_data org dst dd rd) ''flights'') \<and>
   list_all (\<lambda>e. obj_keys e = [''name'', ''hotel_id'', ''address'', ''rating'',
      ''price_per_night'', ''amenities''])
      (array_items (get_mock_hotel_data city ci co g mr) ''hotels'') \<and>
   (is_success (search_flights w' org' dst' dd' rd') \<and>
    obj_get (search_flights w' org' dst' dd' rd') ''note'' = None \<longrightarrow>
      obj_keys (get_mock_flight_data org dst dd rd)
        = obj_keys (search_flights w' org' dst' dd' rd') @ [''note''] \<and>
      list_all (\<lambda>e. obj_keys e = [''price'', ''airline'', ''departure_time'', ''arrival_time'',
        ''duration'', ''layovers''])
        (array_items (search_flights w' org' dst' dd' rd') ''flights'')) \<and>
   (is_success (search_hotels wh' city' ci' co' g' mr') \<and>
    obj_get (search_hotels wh' city' ci' co' g' mr') ''note'' = None \<longrightarrow>
      obj_keys (get_mock_hotel_data city ci co g mr)
        = obj_keys (search_hotels wh' city' ci' co' g' mr') @ [''note''] \<and>
      list_all (\<lambda>e. obj_keys e = [''name'', ''hotel_id'', ''address'', ''rating'',
        ''price_per_night'', ''amenities''])
        (array_items (search_hotels wh' city' ci' co' g' mr') ''hotels''))"
proof -
  have a: "list_all (\<lambda>e. obj_keys e = [''price'', ''airline'', ''departure_time'',
      ''arrival_time'', ''duration'', ''layovers''])
      (array_items (get_mock_flight_data org dst dd rd) ''flights'')"
    by (simp add: array_items_def mock_flight_fields mock_flights_keys)
  have b: "list_all (\<lambda>e. obj_keys e = [''name'', ''hotel_id'', ''address'', ''rating'',
      ''price_per_night'', ''amenities''])
      (array_items (get_mock_hotel_data city ci co g mr) ''hotels'')"
    by (simp add: array_items_def mock_hotel_fields mock_hotels_keys list_all_py_take)
  have c: "\<forall>k resp. serpapi_key w = Some k \<and> k \<noteq> [] \<and>
      serpapi_get w (flight_params k org dst dd rd) = Inr resp \<and> status_code resp \<noteq> 200 \<longrightarrow>
      search_flights w org dst dd rd = get_mock_flight_data org dst dd rd"
    using search_flights_bad_status [of w _ org dst dd rd] by blast
  have d: "\<forall>tr. \<not> falsy (amadeus_api_key wh) \<and> \<not> falsy (amadeus_api_secret wh) \<and>
      token_post wh (token_data (case amadeus_api_key wh of None \<Rightarrow> [] | Some k \<Rightarrow> k)
        (case amadeus_api_secret wh of None \<Rightarrow> [] | Some k \<Rightarrow> k)) = Inr tr \<and>
      status_code tr \<noteq> 200 \<longrightarrow>
      search_hotels wh city ci co g mr = get_mock_hotel_data city ci co g mr"
    using search_hotels_bad_token_status [of wh _ city ci co g mr] by blast
  have d':
    "\<forall>tr token access_token resp.
      \<not> falsy (amadeus_api_key wh) \<and> \<not> falsy (amadeus_api_secret wh) \<and>
      token_post wh (token_data (case amadeus_api_key wh of None \<Rightarrow> [] | Some k \<Rightarrow> k)
        (case amadeus_api_secret wh of None \<Rightarrow> [] | Some k \<Rightarrow> k)) = Inr tr \<and>
      status_code tr = 200 \<and> json_body tr = Inr token \<and>
      py_item token ''access_token'' = Inr access_token \<and>
      hotels_get wh access_token (hotel_params city) = Inr resp \<and> status_code resp \<noteq> 200 \<longrightarrow>
      search_hotels wh city ci co g mr = get_mock_hotel_data city ci co g mr"
    using search_hotels_bad_search_status [of wh _ _ _ city _ ci co g mr] by blast
  show ?thesis
    using a b c d d'
      search_flights_no_key [of w org dst dd rd]
      search_hotels_no_key [of wh city ci co g mr]
      live_flight_shape [of w' org' dst' dd' rd' org dst dd rd]
      live_hotel_shape [of wh' city' ci' co' g' mr' city ci co g mr]
    by (simp add: mock_flight_fields(4,5) mock_hotel_fields(4,5))
qed

theorem mock_fallback_shape_witness:
  "falsy (serpapi_key no_key_flights) \<and>
   search_flights no_key_flights ''JFK'' ''CDG'' ''2025-06-01'' None
     = get_mock_flight_data ''JFK'' ''CDG'' ''2025-06-01'' None \<and>
   falsy (amadeus_api_key no_key_hotels) \<and>
   search_hotels no_key_hotels ''Paris'' ''2025-06-01'' ''2025-06-03'' 2 5
     = get_mock_hotel_data ''Paris'' ''2025-06-01'' ''2025-06-03'' 2 5 \<and>
   is_success (search_flights live_flights ''JFK'' ''CDG'' ''2025-06-01'' None) \<and>
   obj_get (search_flights live_flights ''JFK'' ''CDG'' ''2025-06-01'' None) ''note'' = None \<and>
   obj_keys (get_mock_flight_data ''JFK'' ''CDG'' ''2025-06-01'' None)
     = obj_keys (search_flights live_flights ''JFK'' ''CDG'' ''2025-06-01'' None) @ [''note''] \<and>
   is_success (search_hotels live_hotels ''Paris'' ''2025-06-01'' ''2025-06-03'' 2 5) \<and>
   obj_get (search_hotels live_hotels ''Paris'' ''2025-06-01'' ''2025-06-03'' 2 5) ''note''
     = None \<and>
   obj_keys (get_mock_hotel_data ''Paris'' ''2025-06-01'' ''2025-06-03'' 2 5)
     = obj_keys (search_hotels live_hotels ''Paris'' ''2025-06-01'' ''2025-06-03'' 2 5)
         @ [''note''] \<and>
   serpapi_key busy_flights = Some ''key'' \<and>
   serpapi_get busy_flights (flight_params ''key'' ''JFK'' ''CDG'' ''2025-06-01'' None)
     = Inr \<lparr>status_code = 429,
         json_body = Inl (ValueError, ''Expecting value: line 1 column 1 (char 0)'')\<rparr> \<and>
   search_flights busy_flights ''JFK'' ''CDG'' ''2025-06-01'' None
     = get_mock_flight_data ''JFK'' ''CDG'' ''2025-06-01'' None \<and>
   token_post busy_hotels (token_data ''key'' ''secret'')
     = Inr \<lparr>status_code = 401,
         json_body = Inr (JObj [(''error'', JStr ''invalid_client'')])\<rparr> \<and>
   search_hotels busy_hotels ''Paris'' ''2025-06-01'' ''2025-06-03'' 2 5
     = get_mock_hotel_data ''Paris'' ''2025-06-01'' ''2025-06-03'' 2 5 \<and>
   hotels_get busy_search_hotels (JStr ''t0'') (hotel_params ''Paris'')
     = Inr \<lparr>status_code = 503,
         json_body = Inl (ValueError, ''Expecting value: line 1 column 1 (char 0)'')\<rparr> \<and>
   search_hotels busy_search_hotels ''Paris'' ''2025-06-01'' ''2025-06-03'' 2 5
     = get_mock_hotel_data ''Paris'' ''2025-06-01'' ''2025-06-03'' 2 5"
proof -
  have a: "falsy (serpapi_key no_key_flights)"
    by (simp add: falsy_def no_key_flights_def)
  have b: "falsy (amadeus_api_key no_key_hotels)"
    by (simp add: falsy_def no_key_hotels_def)
  have c: "is_success (search_flights live_flights ''JFK'' ''CDG'' ''2025-06-01'' None)"
    "obj_get (search_flights live_flights ''JFK'' ''CDG'' ''2025-06-01'' None) ''note'' = None"
    by (simp_all add: live_flights_value flight_result_fields)
  have d: "is_success (search_hotels live_hotels ''Paris'' ''2025-06-01'' ''2025-06-03'' 2 5)"
    "obj_get (search_hotels live_hotels ''Paris'' ''2025-06-01'' ''2025-06-03'' 2 5) ''note''
       = None"
    by (simp_all add: live_hotels_value hotel_result_fields)
  have e: "serpapi_key busy_flights = Some ''key''"
    "serpapi_get busy_flights (flight_params ''key'' ''JFK'' ''CDG'' ''2025-06-01'' None)
       = Inr \<lparr>status_code = 429,
           json_body = Inl (ValueError, ''Expecting value: line 1 column 1 (char 0)'')\<rparr>"
    by (simp_all add: busy_flights_def)
  have f: "\<not> falsy (amadeus_api_key busy_hotels)" "\<not> falsy (amadeus_api_secret busy_hotels)"
    "token_post busy_hotels
       (token_data (case amadeus_api_key busy_hotels of None \<Rightarrow> [] | Some k \<Rightarrow> k)
          (case amadeus_api_secret busy_hotels of None \<Rightarrow> [] | Some k \<Rightarrow> k))
       = Inr \<lparr>status_code = 401,
           json_body = Inr (JObj [(''error'', JStr ''invalid_client'')])\<rparr>"
    "token_post busy_hotels (token_data ''key'' ''secret'')
       = Inr \<lparr>status_code = 401,
           json_body = Inr (JObj [(''error'', JStr ''invalid_client'')])\<rparr>"
    by (simp_all add: busy_hotels_def falsy_def)
  have first:
    "search_flights no_key_flights ''JFK'' ''CDG'' ''2025-06-01'' None
       = get_mock_flight_data ''JFK'' ''CDG'' ''2025-06-01'' None \<and>
     search_hotels no_key_hotels ''Paris'' ''2025-06-01'' ''2025-06-03'' 2 5
       = get_mock_hotel_data ''Paris'' ''2025-06-01'' ''2025-06-03'' 2 5 \<and>
     obj_keys (get_mock_flight_data ''JFK'' ''CDG'' ''2025-06-01'' None)
       = obj_keys (search_flights live_flights ''JFK'' ''CDG'' ''2025-06-01'' None) @ [''note''] \<and>
     obj_keys (get_mock_hotel_data ''Paris'' ''2025-06-01'' ''2025-06-03'' 2 5)
       = obj_keys (search_hotels live_hotels ''Paris'' ''2025-06-01'' ''2025-06-03'' 2 5)
           @ [''note'']"
    using a b c d
      mock_fallback_shape [of no_key_flights "''JFK''" "''CDG''" "''2025-06-01''" None
        no_key_hotels "''Paris''" "''2025-06-01''" "''2025-06-03''" 2 5
        live_flights "''JFK''" "''CDG''" "''2025-06-01''" None
        live_hotels "''Paris''" "''2025-06-01''" "''2025-06-03''" 2 5]
    by simp
  have second:
    "search_flights busy_flights ''JFK'' ''CDG'' ''2025-06-01'' None
       = get_mock_flight_data ''JFK'' ''CDG'' ''2025-06-01'' None \<and>
     search_hotels busy_hotels ''Paris'' ''2025-06-01'' ''2025-06-03'' 2 5
       = get_mock_hotel_data ''Paris'' ''2025-06-01'' ''2025-06-03'' 2 5"
    using e f(1,2,3)
      mock_fallback_shape [of busy_flights "''JFK''" "''CDG''" "''2025-06-01''" None
        busy_hotels "''Paris''" "''2025-06-01''" "''2025-06-03''" 2 5
        live_flights "''JFK''" "''CDG''" "''2025-06-01''" None
        live_hotels "''Paris''" "''2025-06-01''" "''2025-06-03''" 2 5]
    by simp
  have g: "\<not> falsy (amadeus_api_key busy_search_hotels)"
    "\<not> falsy (amadeus_api_secret busy_search_hotels)"
    "token_post busy_search_hotels
       (token_data (case amadeus_api_key busy_search_hotels of None \<Rightarrow> [] | Some k \<Rightarrow> k)
          (case amadeus_api_secret busy_search_hotels of None \<Rightarrow> [] | Some k \<Rightarrow> k))
       = Inr \<lparr>status_code = 200,
           json_body = Inr (JObj [(''access_token'', JStr ''t0'')])\<rparr>"
    "hotels_get busy_search_hotels (JStr ''t0'') (hotel_params ''Paris'')
       = Inr \<lparr>status_code = 503,
           json_body = Inl (ValueError, ''Expecting value: line 1 column 1 (char 0)'')\<rparr>"
    by (simp_all add: busy_search_hotels_def falsy_def)
  have third:
    "search_hotels busy_search_hotels ''Paris'' ''2025-06-01'' ''2025-06-03'' 2 5
       = get_mock_hotel_data ''Paris'' ''2025-06-01'' ''2025-06-03'' 2 5"
  proof -
    have "\<forall>tr token access_token resp.
      \<not> falsy (amadeus_api_key busy_search_hotels) \<and>
      \<not> falsy (amadeus_api_secret busy_search_hotels) \<and>
      token_post busy_search_hotels
        (token_data (case amadeus_api_key busy_search_hotels of None \<Rightarrow> [] | Some k \<Rightarrow> k)
          (case amadeus_api_secret busy_search_hotels of None \<Rightarrow> [] | Some k \<Rightarrow> k)) = Inr tr \<and>
      status_code tr = 200 \<and> json_body tr = Inr token \<and>
      py_item token ''access_token'' = Inr access_token \<and>
      hotels_get busy_search_hotels access_token (hotel_params ''Paris'') = Inr resp \<and>
      status_code resp \<noteq> 200 \<longrightarrow>
      search_hotels busy_search_hotels ''Paris'' ''2025-06-01'' ''2025-06-03'' 2 5
        = get_mock_hotel_data ''Paris'' ''2025-06-01'' ''2025-06-03'' 2 5"
      using mock_fallback_shape [of busy_flights "''JFK''" "''CDG''" "''2025-06-01''" None
        busy_search_hotels "''Paris''" "''2025-06-01''" "''2025-06-03''" 2 5
        live_flights "''JFK''" "''CDG''" "''2025-06-01''" None
        live_hotels "''Paris''" "''2025-06-01''" "''2025-06-03''" 2 5]
      by blast
    then show ?thesis
      using g
      by (elim allE [of _ "\<lparr>status_code = 200,
             json_body = Inr (JObj [(''access_token'', JStr ''t0'')])\<rparr>"]
           allE [of _ "JObj [(''access_token'', JStr ''t0'')]"]
           allE [of _ "JStr ''t0''"]
           allE [of _ "\<lparr>status_code = 503,
             json_body = Inl (ValueError, ''Expecting value: line 1 column 1 (char 0)'')\<rparr>"])
        simp
  qed
  show ?thesis
    using a b c d e f(4) g(4) first second third by simp
qed

end
